theory Spec2Isabelle
  imports Complex_Main "HOL-Library.List_Lexorder"
begin

section \<open>Python text and JSON values\<close>

text \<open>
  A Python \<open>str\<close> is a sequence of Unicode code points; \<open>len\<close> counts code points.
  String constants of the source are ASCII and are written \<open>u ''...''\<close>.
\<close>

type_synonym codepoint = nat
type_synonym ustr = "codepoint list"

definition u :: "string \<Rightarrow> ustr" where
  "u s = map of_char s"

text \<open>
  The values \<open>json.loads\<close> produces. A JSON number with a fraction or an exponent is a
  Python float; a finite float is the rational it denotes (comparison, truth value and
  \<open>int()\<close> of a float are exact operations). NaN and the infinities have no
  representation here. A dict keeps its keys in insertion order.
\<close>

datatype pyval =
    PNone
  | PBool bool
  | PInt int
  | PFloat rat
  | PStr ustr
  | PList "pyval list"
  | PDict "(ustr \<times> pyval) list"

type_synonym pydict = "(ustr \<times> pyval) list"

datatype pyerr =
  TypeError | AttributeError | ValueError | KeyError | OverflowError | OutsideModel

text \<open>
  What the code takes from the Python runtime, the standard library and the machine it
  runs on, and whose tables are not part of the repository:
  \<^item> \<open>rt_nfkd\<close>: \<open>unicodedata.normalize('NFKD', s)\<close>;
  \<open>rt_lower\<close>: \<open>str.lower\<close> on text that has a non-ASCII code point;
  \<open>rt_isalnum\<close>: \<open>str.isalnum\<close> of one non-ASCII code point;
  \<^item> \<open>rt_url_basename\<close>: \<open>os.path.basename(unquote(urlparse(url).path))\<close>, the last segment
  of the decoded URL path;
  \<^item> \<open>rt_int_of_str\<close>: \<open>int(s)\<close> of a string, \<open>None\<close> when it raises ValueError;
  \<^item> \<open>rt_repr\<close>: \<open>str(v)\<close> of a float, a list or a dict;
  \<^item> \<open>rt_float_size_text\<close>: the floating-point body of \<open>format_filesize\<close>;
  \<^item> \<open>rt_find_ytdlp\<close>, \<open>rt_ytdlp_version\<close>: what \<open>find_ytdlp()\<close> and
  \<open>check_ytdlp_version()\<close> return on this machine.
\<close>

record runtime =
  rt_nfkd :: "ustr \<Rightarrow> ustr"
  rt_lower :: "ustr \<Rightarrow> ustr"
  rt_isalnum :: "codepoint \<Rightarrow> bool"
  rt_url_basename :: "ustr \<Rightarrow> ustr"
  rt_int_of_str :: "ustr \<Rightarrow> int option"
  rt_repr :: "pyval \<Rightarrow> ustr"
  rt_float_size_text :: "pyval \<Rightarrow> pyerr + ustr"
  rt_find_ytdlp :: "ustr option"
  rt_ytdlp_version :: "ustr option"

subsection \<open>Truth values, dict access, \<open>str()\<close>\<close>

fun truthy :: "pyval \<Rightarrow> bool" where
  "truthy PNone = False"
| "truthy (PBool b) = b"
| "truthy (PInt i) = (i \<noteq> 0)"
| "truthy (PFloat q) = (q \<noteq> 0)"
| "truthy (PStr s) = (s \<noteq> [])"
| "truthy (PList xs) = (xs \<noteq> [])"
| "truthy (PDict d) = (d \<noteq> [])"

definition py_or :: "pyval \<Rightarrow> pyval \<Rightarrow> pyval" where
  "py_or a b = (if truthy a then a else b)"

definition dict_get_default :: "pydict \<Rightarrow> ustr \<Rightarrow> pyval \<Rightarrow> pyval" where
  "dict_get_default d k dflt = (case map_of d k of None \<Rightarrow> dflt | Some v \<Rightarrow> v)"

definition dict_get :: "pydict \<Rightarrow> ustr \<Rightarrow> pyval" where
  "dict_get d k = dict_get_default d k PNone"

text \<open>\<open>d[k] = v\<close>: an existing key keeps its place, a new key goes last.\<close>

fun dict_set :: "pydict \<Rightarrow> ustr \<Rightarrow> pyval \<Rightarrow> pydict" where
  "dict_set [] k v = [(k, v)]"
| "dict_set ((k', v') # d) k v = (if k' = k then (k, v) # d else (k', v') # dict_set d k v)"

function nat_digits :: "nat \<Rightarrow> ustr" where
  "nat_digits n = (if n < 10 then [48 + n] else nat_digits (n div 10) @ [48 + n mod 10])"
  by pat_completeness auto
termination
  by (relation "measure id") auto

definition int_repr :: "int \<Rightarrow> ustr" where
  "int_repr i = (if i < 0 then 45 # nat_digits (nat (- i)) else nat_digits (nat i))"

definition py_str :: "runtime \<Rightarrow> pyval \<Rightarrow> ustr" where
  "py_str rt v =
     (case v of
        PNone \<Rightarrow> u ''None''
      | PBool b \<Rightarrow> (if b then u ''True'' else u ''False'')
      | PInt i \<Rightarrow> int_repr i
      | PStr s \<Rightarrow> s
      | _ \<Rightarrow> rt_repr rt v)"

definition ascii_lower :: "codepoint \<Rightarrow> codepoint" where
  "ascii_lower c = (if 65 \<le> c \<and> c \<le> 90 then c + 32 else c)"

definition ascii_alnum :: "codepoint \<Rightarrow> bool" where
  "ascii_alnum c \<longleftrightarrow> (48 \<le> c \<and> c \<le> 57) \<or> (65 \<le> c \<and> c \<le> 90) \<or> (97 \<le> c \<and> c \<le> 122)"

definition py_lower :: "runtime \<Rightarrow> ustr \<Rightarrow> ustr" where
  "py_lower rt s = (if list_all (\<lambda>c. c < 128) s then map ascii_lower s else rt_lower rt s)"

definition py_isalnum :: "runtime \<Rightarrow> ustr \<Rightarrow> bool" where
  "py_isalnum rt s \<longleftrightarrow>
     s \<noteq> [] \<and> list_all (\<lambda>c. if c < 128 then ascii_alnum c else rt_isalnum rt c) s"

section \<open>Filename sanitizer\<close>

definition encode_ascii_ignore :: "ustr \<Rightarrow> ustr" where
  "encode_ascii_ignore s = filter (\<lambda>c. c < 128) s"

definition str_replace_char :: "codepoint \<Rightarrow> ustr \<Rightarrow> ustr \<Rightarrow> ustr" where
  "str_replace_char old new s = concat (map (\<lambda>c. if c = old then new else [c]) s)"

definition replacements :: "(codepoint \<times> ustr) list" where
  "replacements =
    [(0x011f, u ''g''), (0x011e, u ''G''),
     (0x0131, u ''i''), (0x0130, u ''I''),
     (0x015f, u ''s''), (0x015e, u ''S''),
     (0x00fc, u ''u''), (0x00dc, u ''U''),
     (0x00f6, u ''o''), (0x00d6, u ''O''),
     (0x00e7, u ''c''), (0x00c7, u ''C''),
     (0x00e4, u ''ae''), (0x00c4, u ''Ae''),
     (0x00df, u ''ss''),
     (0x00e9, u ''e''), (0x00e8, u ''e''), (0x00ea, u ''e''), (0x00eb, u ''e''),
     (0x00e0, u ''a''), (0x00e1, u ''a''), (0x00e2, u ''a''),
     (0x00f1, u ''n''), (0x00d1, u ''N''),
     (0x2019, [39]), (0x2018, [39]),
     (0x201c, [34]), (0x201d, [34]),
     (0x2013, u ''-''), (0x2014, u ''-''),
     (0x2026, u ''...''),
     (0x00a9, u ''(c)''), (0x00ae, u ''(r)''),
     (0x2122, u ''(tm)'')]"

text \<open>
  The character class \<open>[\\/:*?"<>|\x00-\x1f]\<close>, and \<open>\s\<close> of a \<open>str\<close> pattern
  (the code points for which \<open>str.isspace\<close> holds).
\<close>

definition invalid_char :: "codepoint \<Rightarrow> bool" where
  "invalid_char c \<longleftrightarrow> c \<in> {92, 47, 58, 42, 63, 34, 60, 62, 124} \<or> c \<le> 31"

definition re_space :: "codepoint \<Rightarrow> bool" where
  "re_space c \<longleftrightarrow> (9 \<le> c \<and> c \<le> 13) \<or> (28 \<le> c \<and> c \<le> 32)
     \<or> c \<in> {0x85, 0xa0, 0x1680, 0x2028, 0x2029, 0x202f, 0x205f, 0x3000}
     \<or> (0x2000 \<le> c \<and> c \<le> 0x200a)"

text \<open>\<open>re.sub(r'[...]+', new, s)\<close>: every maximal run of characters of the class becomes \<open>new\<close>.\<close>

function re_sub_runs :: "(codepoint \<Rightarrow> bool) \<Rightarrow> ustr \<Rightarrow> ustr \<Rightarrow> ustr" where
  "re_sub_runs p new [] = []"
| "re_sub_runs p new (c # cs) =
     (if p c then new @ re_sub_runs p new (dropWhile p cs) else c # re_sub_runs p new cs)"
  by pat_completeness auto
termination
  by (relation "measure (\<lambda>(p, new, s). length s)") (auto simp: length_dropWhile_le le_imp_less_Suc)

definition py_lstrip :: "ustr \<Rightarrow> ustr \<Rightarrow> ustr" where
  "py_lstrip chars s = dropWhile (\<lambda>c. c \<in> set chars) s"

definition py_rstrip :: "ustr \<Rightarrow> ustr \<Rightarrow> ustr" where
  "py_rstrip chars s = rev (dropWhile (\<lambda>c. c \<in> set chars) (rev s))"

definition py_strip :: "ustr \<Rightarrow> ustr \<Rightarrow> ustr" where
  "py_strip chars s = py_rstrip chars (py_lstrip chars s)"

text \<open>The slice \<open>s[:m]\<close>; a negative \<open>m\<close> counts from the end.\<close>

definition py_prefix :: "'a list \<Rightarrow> int \<Rightarrow> 'a list" where
  "py_prefix s m = (if 0 \<le> m then take (nat m) s else take (length s - nat (- m)) s)"

text \<open>
  \<open>len(ascii_text) < len(title) * 0.3\<close> compares an int with a double. For lengths
  below \<open>2^48\<close> the double product differs from \<open>3 * len / 10\<close> by less than a
  hundredth and is that number whenever it is an integer, so the test is
  \<open>10 * len(ascii_text) < 3 * len(title)\<close>.
\<close>

definition sanitize_filename :: "runtime \<Rightarrow> ustr \<Rightarrow> int \<Rightarrow> ustr" where
  "sanitize_filename rt title max_length =
     (if title = [] then u ''download''
      else
        let ascii_text = encode_ascii_ignore (rt_nfkd rt title);
            ascii_text =
              (if 10 * length ascii_text < 3 * length title
               then encode_ascii_ignore
                      (rt_nfkd rt
                        (fold (\<lambda>(old, new) temp. str_replace_char old new temp) replacements title))
               else ascii_text);
            clean = filter (\<lambda>c. \<not> invalid_char c) ascii_text;
            clean = re_sub_runs (\<lambda>c. re_space c \<or> c = 95) (u ''_'') clean;
            clean = py_strip (u ''_. '') clean;
            clean = (if int (length clean) > max_length
                     then py_rstrip (u ''_'') (py_prefix clean max_length) else clean)
        in if clean = [] then u ''download'' else clean)"

text \<open>What the contract promises of every character of a result.\<close>

definition safe_char :: "codepoint \<Rightarrow> bool" where
  "safe_char c \<longleftrightarrow> c < 128 \<and> \<not> invalid_char c"

section \<open>URL classifier\<close>

definition ARCHIVE_EXTENSIONS :: "ustr list" where
  "ARCHIVE_EXTENSIONS = map u
     [''zip'', ''rar'', ''7z'', ''tar'', ''gz'', ''bz2'', ''xz'', ''iso'', ''cab'', ''arj'',
      ''lzh'', ''ace'']"

definition EXECUTABLE_EXTENSIONS :: "ustr list" where
  "EXECUTABLE_EXTENSIONS = map u
     [''exe'', ''msi'', ''dmg'', ''pkg'', ''deb'', ''rpm'', ''appimage'', ''apk'', ''ipa'',
      ''run'', ''bin'', ''sh'', ''bat'', ''cmd'', ''ps1'']"

definition DOCUMENT_EXTENSIONS :: "ustr list" where
  "DOCUMENT_EXTENSIONS = map u
     [''pdf'', ''doc'', ''docx'', ''xls'', ''xlsx'', ''ppt'', ''pptx'', ''odt'', ''ods'',
      ''odp'', ''rtf'', ''txt'', ''csv'', ''epub'', ''mobi'']"

definition IMAGE_EXTENSIONS :: "ustr list" where
  "IMAGE_EXTENSIONS = map u
     [''jpg'', ''jpeg'', ''png'', ''gif'', ''webp'', ''bmp'', ''svg'', ''ico'', ''tiff'',
      ''tif'', ''psd'', ''ai'', ''raw'', ''cr2'', ''nef'']"

definition AUDIO_EXTENSIONS :: "ustr list" where
  "AUDIO_EXTENSIONS = map u
     [''mp3'', ''m4a'', ''wav'', ''flac'', ''ogg'', ''aac'', ''wma'', ''opus'', ''aiff'',
      ''ape'', ''alac'']"

definition VIDEO_EXTENSIONS :: "ustr list" where
  "VIDEO_EXTENSIONS = map u
     [''mp4'', ''mkv'', ''webm'', ''avi'', ''mov'', ''wmv'', ''flv'', ''m4v'', ''mpeg'',
      ''mpg'', ''3gp'', ''ts'', ''m2ts'', ''vob'']"

definition FONT_EXTENSIONS :: "ustr list" where
  "FONT_EXTENSIONS = map u [''ttf'', ''otf'', ''woff'', ''woff2'', ''eot'', ''fon'']"

definition CODE_EXTENSIONS :: "ustr list" where
  "CODE_EXTENSIONS = map u
     [''js'', ''py'', ''java'', ''cpp'', ''c'', ''h'', ''cs'', ''php'', ''rb'', ''go'', ''rs'',
      ''swift'', ''kt'', ''scala'', ''sql'']"

definition ALL_DIRECT_EXTENSIONS :: "ustr list" where
  "ALL_DIRECT_EXTENSIONS =
     ARCHIVE_EXTENSIONS @ EXECUTABLE_EXTENSIONS @ DOCUMENT_EXTENSIONS @ IMAGE_EXTENSIONS @
     AUDIO_EXTENSIONS @ VIDEO_EXTENSIONS @ FONT_EXTENSIONS @ CODE_EXTENSIONS"

definition get_file_category :: "runtime \<Rightarrow> ustr \<Rightarrow> ustr" where
  "get_file_category rt ext0 =
     (let ext = py_lower rt ext0 in
      if ext \<in> set ARCHIVE_EXTENSIONS then u ''archive''
      else if ext \<in> set EXECUTABLE_EXTENSIONS then u ''executable''
      else if ext \<in> set DOCUMENT_EXTENSIONS then u ''document''
      else if ext \<in> set IMAGE_EXTENSIONS then u ''image''
      else if ext \<in> set AUDIO_EXTENSIONS then u ''audio''
      else if ext \<in> set VIDEO_EXTENSIONS then u ''video''
      else if ext \<in> set FONT_EXTENSIONS then u ''font''
      else if ext \<in> set CODE_EXTENSIONS then u ''code''
      else u ''file'')"

text \<open>\<open>s.split("?")[0]\<close> and \<open>s.rsplit(".", 1)[-1]\<close> (code points 63 and 46).\<close>

definition before_first :: "codepoint \<Rightarrow> ustr \<Rightarrow> ustr" where
  "before_first sep s = takeWhile (\<lambda>c. c \<noteq> sep) s"

definition after_last :: "codepoint \<Rightarrow> ustr \<Rightarrow> ustr" where
  "after_last sep s = rev (takeWhile (\<lambda>c. c \<noteq> sep) (rev s))"

definition extract_filename_from_url :: "runtime \<Rightarrow> ustr \<Rightarrow> ustr" where
  "extract_filename_from_url rt url =
     (let filename = rt_url_basename rt url;
          filename = (if 63 \<in> set filename then before_first 63 filename else filename)
      in if filename \<noteq> [] then filename else u ''download'')"

definition get_extension_from_url :: "runtime \<Rightarrow> ustr \<Rightarrow> ustr option" where
  "get_extension_from_url rt url =
     (let filename = extract_filename_from_url rt url in
      if 46 \<in> set filename then
        (let ext = py_lower rt (after_last 46 filename) in
         if length ext \<le> 10 \<and> py_isalnum rt ext then Some ext else None)
      else None)"

definition is_direct_download_url :: "runtime \<Rightarrow> ustr \<Rightarrow> bool" where
  "is_direct_download_url rt url =
     (case get_extension_from_url rt url of
        None \<Rightarrow> False
      | Some ext \<Rightarrow> ext \<in> set ALL_DIRECT_EXTENSIONS)"

definition analyze_url :: "runtime \<Rightarrow> ustr \<Rightarrow> pydict" where
  "analyze_url rt url =
     (let result =
            [(u ''url'', PStr url),
             (u ''is_direct'', PBool False),
             (u ''has_ytdlp'', PBool (rt_find_ytdlp rt \<noteq> None)),
             (u ''extension'',
                (case get_extension_from_url rt url of None \<Rightarrow> PNone | Some e \<Rightarrow> PStr e)),
             (u ''filename'', PStr (extract_filename_from_url rt url))]
      in if is_direct_download_url rt url
         then (case get_extension_from_url rt url of
                 Some extension \<Rightarrow>
                   dict_set (dict_set result (u ''is_direct'') (PBool True)) (u ''category'')
                     (PStr (get_file_category rt extension))
               | None \<Rightarrow> result)
         else result)"

text \<open>
  The classifier in the words of the claim: the last path segment of the decoded URL path
  has an extension, the text after its last dot, that is alphanumeric, at most ten
  characters long and a member of one of the eight sets.
\<close>

definition in_a_category_set :: "ustr \<Rightarrow> bool" where
  "in_a_category_set ext \<longleftrightarrow>
     ext \<in> set ARCHIVE_EXTENSIONS \<or> ext \<in> set EXECUTABLE_EXTENSIONS \<or>
     ext \<in> set DOCUMENT_EXTENSIONS \<or> ext \<in> set IMAGE_EXTENSIONS \<or>
     ext \<in> set AUDIO_EXTENSIONS \<or> ext \<in> set VIDEO_EXTENSIONS \<or>
     ext \<in> set FONT_EXTENSIONS \<or> ext \<in> set CODE_EXTENSIONS"

definition claimed_direct :: "runtime \<Rightarrow> ustr \<Rightarrow> bool" where
  "claimed_direct rt url \<longleftrightarrow>
     (let segment = rt_url_basename rt url; ext = after_last 46 segment in
      46 \<in> set segment \<and> py_isalnum rt ext \<and> length ext \<le> 10 \<and> in_a_category_set ext)"

text \<open>
  The same with the two steps the code adds: the segment is cut at its first \<open>?\<close>, and the
  extension is lowercased before it is tested.
\<close>

definition amended_direct :: "runtime \<Rightarrow> ustr \<Rightarrow> bool" where
  "amended_direct rt url \<longleftrightarrow>
     (let segment = before_first 63 (rt_url_basename rt url);
          ext = py_lower rt (after_last 46 segment) in
      46 \<in> set segment \<and> py_isalnum rt ext \<and> length ext \<le> 10 \<and> in_a_category_set ext)"

section \<open>Format reconciler\<close>

definition has_video :: "pydict \<Rightarrow> bool" where
  "has_video fmt =
     (let vcodec = dict_get_default fmt (u ''vcodec'') (PStr (u ''none''))
      in truthy vcodec \<and> vcodec \<noteq> PStr (u ''none''))"

definition has_audio :: "pydict \<Rightarrow> bool" where
  "has_audio fmt =
     (let acodec = dict_get_default fmt (u ''acodec'') (PStr (u ''none''))
      in truthy acodec \<and> acodec \<noteq> PStr (u ''none''))"

definition is_combined_format :: "pydict \<Rightarrow> bool" where
  "is_combined_format fmt \<longleftrightarrow> has_video fmt \<and> has_audio fmt"

text \<open>
  \<open>int(x)\<close> of a float truncates towards zero. Of an infinity it raises OverflowError,
  which the \<open>except (TypeError, ValueError)\<close> of \<open>safe_int\<close> does not catch; the
  infinities have no representation here, so the function below is \<open>safe_int\<close> on the
  finite values only.
\<close>

definition py_trunc :: "rat \<Rightarrow> int" where
  "py_trunc q = (if 0 \<le> q then \<lfloor>q\<rfloor> else \<lceil>q\<rceil>)"

definition safe_int :: "runtime \<Rightarrow> pyval \<Rightarrow> int \<Rightarrow> int" where
  "safe_int rt v dflt =
     (case v of
        PNone \<Rightarrow> dflt
      | PBool b \<Rightarrow> (if b then 1 else 0)
      | PInt i \<Rightarrow> i
      | PFloat q \<Rightarrow> py_trunc q
      | PStr s \<Rightarrow> (case rt_int_of_str rt s of Some i \<Rightarrow> i | None \<Rightarrow> dflt)
      | PList xs \<Rightarrow> dflt
      | PDict d \<Rightarrow> dflt)"

definition get_format_quality_score :: "runtime \<Rightarrow> pydict \<Rightarrow> int" where
  "get_format_quality_score rt fmt =
     (let score = 0;
          score = (if is_combined_format fmt then score + 100000 else score);
          height = safe_int rt (dict_get fmt (u ''height'')) 0;
          score = score + height * 10;
          tbr = safe_int rt (dict_get fmt (u ''tbr'')) 0;
          score = score + tbr;
          ext = py_or (dict_get fmt (u ''ext'')) (PStr []);
          score = (if ext = PStr (u ''mp4'') then score + 500
                   else if ext = PStr (u ''webm'') then score + 100 else score);
          fps = safe_int rt (dict_get fmt (u ''fps'')) 0;
          score = (if fps \<ge> 60 then score + 200 else if fps \<ge> 30 then score + 100 else score)
      in score)"

subsection \<open>\<open>list.sort(key=..., reverse=True)\<close>\<close>

text \<open>
  CPython sorts with \<open>reverse=True\<close> by reversing the list, sorting it stably in ascending
  order and reversing it again, so equal keys keep their order.
\<close>

definition stable_sort_desc :: "('a \<Rightarrow> 'k::linorder) \<Rightarrow> 'a list \<Rightarrow> 'a list" where
  "stable_sort_desc key xs = rev (sort_key key (rev xs))"

fun is_num :: "pyval \<Rightarrow> bool" where
  "is_num (PBool b) = True"
| "is_num (PInt i) = True"
| "is_num (PFloat q) = True"
| "is_num v = False"

fun num_val :: "pyval \<Rightarrow> rat" where
  "num_val (PBool b) = (if b then 1 else 0)"
| "num_val (PInt i) = of_int i"
| "num_val (PFloat q) = q"
| "num_val v = 0"

fun is_str :: "pyval \<Rightarrow> bool" where
  "is_str (PStr s) = True"
| "is_str v = False"

fun str_val :: "pyval \<Rightarrow> ustr" where
  "str_val (PStr s) = s"
| "str_val v = []"

fun is_list :: "pyval \<Rightarrow> bool" where
  "is_list (PList xs) = True"
| "is_list v = False"

text \<open>
  Sorting by keys that are Python values. Numbers (bool, int, float) compare by value and
  strings by code points; \<open><\<close> between a number and a string, and with \<open>None\<close> or a dict
  on either side, raises TypeError. A sort of two or more elements compares every element
  with some other one, and its comparisons connect all of them, so it raises as soon as the
  keys are not all numbers or all strings. Lists compare element by element and may or may
  not raise depending on the pairs the sort picks: keys that are all lists are left out.
\<close>

definition py_sort_desc :: "('a \<Rightarrow> pyval) \<Rightarrow> 'a list \<Rightarrow> pyerr + 'a list" where
  "py_sort_desc key xs =
     (if length xs \<le> 1 then Inr xs
      else if list_all (\<lambda>x. is_num (key x)) xs
        then Inr (stable_sort_desc (\<lambda>x. num_val (key x)) xs)
      else if list_all (\<lambda>x. is_str (key x)) xs
        then Inr (stable_sort_desc (\<lambda>x. str_val (key x)) xs)
      else if list_all (\<lambda>x. is_list (key x)) xs then Inl OutsideModel
      else Inl TypeError)"

subsection \<open>\<open>merge_video_audio_formats\<close>\<close>

text \<open>The two \<open>continue\<close> tests of the first loop, and its three buckets.\<close>

definition skipped :: "pydict \<Rightarrow> bool" where
  "skipped fmt \<longleftrightarrow>
     \<not> truthy (dict_get fmt (u ''url''))
     \<or> dict_get fmt (u ''ext'') = PStr (u ''mhtml'')
     \<or> dict_get fmt (u ''vcodec'') = PStr (u ''images'')"

definition combined_of :: "pydict list \<Rightarrow> pydict list" where
  "combined_of formats = filter (\<lambda>fmt. \<not> skipped fmt \<and> is_combined_format fmt) formats"

definition video_only_of :: "pydict list \<Rightarrow> pydict list" where
  "video_only_of formats =
     filter (\<lambda>fmt. \<not> skipped fmt \<and> \<not> is_combined_format fmt \<and> has_video fmt) formats"

definition audio_only_of :: "pydict list \<Rightarrow> pydict list" where
  "audio_only_of formats =
     filter (\<lambda>fmt. \<not> skipped fmt \<and> \<not> is_combined_format fmt \<and> \<not> has_video fmt \<and> has_audio fmt)
       formats"

definition audio_sort_key :: "pydict \<Rightarrow> pyval" where
  "audio_sort_key x = py_or (dict_get x (u ''abr'')) (py_or (dict_get x (u ''tbr'')) (PInt 0))"

definition merged_format :: "pydict \<Rightarrow> pydict \<Rightarrow> pydict" where
  "merged_format vfmt best_audio =
     (let merged = vfmt;
          merged = dict_set merged (u ''acodec'')
                     (dict_get_default best_audio (u ''acodec'') (PStr (u ''aac'')));
          merged = dict_set merged (u ''abr'') (dict_get best_audio (u ''abr''));
          merged = dict_set merged (u ''audio_ext'')
                     (dict_get_default best_audio (u ''ext'') (PStr (u ''m4a'')));
          merged = dict_set merged (u ''_audio_url'') (dict_get best_audio (u ''url''));
          merged = dict_set merged (u ''_needs_merge'') (PBool True)
      in merged)"

definition video_only_fallback :: "pydict \<Rightarrow> pydict" where
  "video_only_fallback vfmt = dict_set vfmt (u ''_video_only'') (PBool True)"

definition penalized_audio :: "runtime \<Rightarrow> pydict \<Rightarrow> pydict" where
  "penalized_audio rt fmt =
     dict_set fmt (u ''preference'') (PInt (safe_int rt (dict_get fmt (u ''preference'')) 0 - 50))"

text \<open>
  One round of the last loop. The state is \<open>seen_resolutions\<close>, \<open>video_formats\<close> and
  \<open>best_audio\<close>.
\<close>

definition dedupe_step ::
  "runtime \<Rightarrow> pydict \<Rightarrow> ustr list \<times> pydict list \<times> pydict option
     \<Rightarrow> ustr list \<times> pydict list \<times> pydict option" where
  "dedupe_step rt fmt st =
     (case st of (seen_resolutions, video_formats, best_audio) \<Rightarrow>
        let height = py_or (dict_get fmt (u ''height'')) (PInt 0);
            has_v = (truthy (dict_get fmt (u ''vcodec''))
                     \<and> dict_get fmt (u ''vcodec'') \<noteq> PStr (u ''none''));
            has_a = (truthy (dict_get fmt (u ''acodec''))
                     \<and> dict_get fmt (u ''acodec'') \<noteq> PStr (u ''none''));
            has_audio_ext = truthy (dict_get fmt (u ''audio_ext''))
        in if has_v then
             (if has_a \<or> has_audio_ext then
                (let key = u ''video_'' @ py_str rt height in
                 if key \<notin> set seen_resolutions
                 then (seen_resolutions @ [key], video_formats @ [fmt], best_audio)
                 else st)
              else st)
           else
             (if has_a \<and> best_audio = None then (seen_resolutions, video_formats, Some fmt)
              else st))"

definition deduplicate :: "runtime \<Rightarrow> pydict list \<Rightarrow> pydict list" where
  "deduplicate rt result =
     (case fold (dedupe_step rt) result ([], [], None) of
        (seen_resolutions, video_formats, best_audio) \<Rightarrow>
          (case best_audio of
             None \<Rightarrow> video_formats
           | Some b \<Rightarrow> (if b \<noteq> [] then video_formats @ [b] else video_formats)))"

definition merge_video_audio_formats :: "runtime \<Rightarrow> pydict list \<Rightarrow> pyerr + pydict list" where
  "merge_video_audio_formats rt formats =
     (let combined = combined_of formats;
          video_only = video_only_of formats;
          audio_only = audio_only_of formats;
          result = combined
      in case (if video_only \<noteq> [] \<and> audio_only \<noteq> []
               then py_sort_desc audio_sort_key audio_only else Inr audio_only) of
           Inl e \<Rightarrow> Inl e
         | Inr audio_only \<Rightarrow>
             let result =
                   (if video_only \<noteq> [] \<and> audio_only \<noteq> [] then
                      (case audio_only of
                         [] \<Rightarrow> result
                       | best_audio # others \<Rightarrow>
                           if best_audio \<noteq> []
                           then result @ map (\<lambda>vfmt. merged_format vfmt best_audio) video_only
                           else result)
                    else result);
                 result = (if result = [] \<and> video_only \<noteq> []
                           then result @ map video_only_fallback video_only else result);
                 result = result @ map (penalized_audio rt) audio_only;
                 result = stable_sort_desc (get_format_quality_score rt) result
             in Inr (deduplicate rt result))"

text \<open>The height the last loop keys a video format by: \<open>fmt.get("height") or 0\<close>.\<close>

definition height_of :: "pydict \<Rightarrow> pyval" where
  "height_of fmt = py_or (dict_get fmt (u ''height'')) (PInt 0)"

text \<open>The characters of the extensions in the eight sets.\<close>

definition lower_alnum :: "codepoint \<Rightarrow> bool" where
  "lower_alnum c \<longleftrightarrow> (48 \<le> c \<and> c \<le> 57) \<or> (97 \<le> c \<and> c \<le> 122)"

section \<open>Record transformer\<close>

text \<open>Exceptions propagate: the rest of a computation is skipped once a step has raised.\<close>

definition ebind :: "pyerr + 'a \<Rightarrow> ('a \<Rightarrow> pyerr + 'b) \<Rightarrow> pyerr + 'b" where
  "ebind m f = (case m of Inl e \<Rightarrow> Inl e | Inr x \<Rightarrow> f x)"

fun emap :: "('a \<Rightarrow> pyerr + 'b) \<Rightarrow> 'a list \<Rightarrow> pyerr + 'b list" where
  "emap f [] = Inr []"
| "emap f (x # xs) = ebind (f x) (\<lambda>y. ebind (emap f xs) (\<lambda>ys. Inr (y # ys)))"

text \<open>
  \<open>for x in v\<close>: a list gives its elements, a string its characters, a dict its keys;
  anything else is not iterable.
\<close>

definition py_iter :: "pyval \<Rightarrow> pyerr + pyval list" where
  "py_iter v =
     (case v of
        PList xs \<Rightarrow> Inr xs
      | PStr s \<Rightarrow> Inr (map (\<lambda>c. PStr [c]) s)
      | PDict d \<Rightarrow> Inr (map (\<lambda>kv. PStr (fst kv)) d)
      | _ \<Rightarrow> Inl TypeError)"

text \<open>\<open>x.get(...)\<close> on a value: only a dict has the method.\<close>

definition as_dict :: "pyval \<Rightarrow> pyerr + pydict" where
  "as_dict v = (case v of PDict d \<Rightarrow> Inr d | _ \<Rightarrow> Inl AttributeError)"

definition starts_with :: "ustr \<Rightarrow> ustr \<Rightarrow> bool" where
  "starts_with s p \<longleftrightarrow> take (length p) s = p"

fun str_contains :: "ustr \<Rightarrow> ustr \<Rightarrow> bool" where
  "str_contains [] sub = (sub = [])"
| "str_contains (c # cs) sub = (starts_with (c # cs) sub \<or> str_contains cs sub)"

fun py_join :: "ustr \<Rightarrow> ustr list \<Rightarrow> ustr" where
  "py_join sep [] = []"
| "py_join sep [x] = x"
| "py_join sep (x # y # xs) = x @ sep @ py_join sep (y # xs)"

text \<open>\<open>len(v)\<close>: defined for strings, lists and dicts.\<close>

definition py_len :: "pyval \<Rightarrow> pyerr + nat" where
  "py_len v =
     (case v of
        PStr s \<Rightarrow> Inr (length s)
      | PList xs \<Rightarrow> Inr (length xs)
      | PDict d \<Rightarrow> Inr (length d)
      | _ \<Rightarrow> Inl TypeError)"

text \<open>
  \<open>sanitize_filename(title)\<close> with the default \<open>max_length=200\<close>, called on whatever
  \<open>data.get("title", ...)\<close> is: a false value gives \<open>"download"\<close> at the first test, and
  \<open>unicodedata.normalize\<close> raises TypeError on a true value that is not a string.
\<close>

definition sanitize_title :: "runtime \<Rightarrow> pyval \<Rightarrow> pyerr + ustr" where
  "sanitize_title rt title =
     (if \<not> truthy title then Inr (u ''download'')
      else case title of
             PStr s \<Rightarrow> Inr (sanitize_filename rt s 200)
           | _ \<Rightarrow> Inl TypeError)"

definition format_filesize :: "runtime \<Rightarrow> pyval \<Rightarrow> pyerr + ustr" where
  "format_filesize rt size_bytes =
     (if size_bytes = PNone then Inr [] else rt_float_size_text rt size_bytes)"

subsection \<open>\<open>transform_format\<close>\<close>

text \<open>\<open>"m3u8" in url\<close> and \<open>url.startswith("https")\<close> for the values a url can be.\<close>

definition m3u8_in :: "pyval \<Rightarrow> pyerr + bool" where
  "m3u8_in url =
     (case url of
        PStr s \<Rightarrow> Inr (str_contains s (u ''m3u8''))
      | PList xs \<Rightarrow> Inr (PStr (u ''m3u8'') \<in> set xs)
      | PDict d \<Rightarrow> Inr (u ''m3u8'' \<in> fst ` set d)
      | _ \<Rightarrow> Inl TypeError)"

definition startswith_https :: "pyval \<Rightarrow> pyerr + bool" where
  "startswith_https url =
     (case url of
        PStr s \<Rightarrow> Inr (starts_with s (u ''https''))
      | _ \<Rightarrow> Inl AttributeError)"

definition pick_protocol :: "pydict \<Rightarrow> pyval \<Rightarrow> pyerr + pyval" where
  "pick_protocol fmt url =
     (let protocol = dict_get_default fmt (u ''protocol'') (PStr (u ''https'')) in
      if protocol \<notin> set [PStr (u ''http''), PStr (u ''https''), PStr (u ''m3u8_native''),
                            PStr (u ''http_dash_segments'')]
      then ebind (m3u8_in url) (\<lambda>has_m3u8.
             if has_m3u8 \<or> dict_get fmt (u ''ext'') = PStr (u ''m3u8'')
             then Inr (PStr (u ''m3u8_native''))
             else ebind (startswith_https url) (\<lambda>https.
                    if https then Inr (PStr (u ''https'')) else Inr (PStr (u ''http''))))
      else Inr protocol)"

text \<open>The description shown to the user, \<open>result["format"]\<close>.\<close>

definition format_description ::
  "runtime \<Rightarrow> pydict \<Rightarrow> bool \<Rightarrow> bool \<Rightarrow> pyval \<Rightarrow> pyval \<Rightarrow> pyerr + ustr list" where
  "format_description rt fmt has_v has_a height ext =
     (let format_parts = [];
          format_parts =
            (if has_v then
               (let fps = safe_int rt (dict_get fmt (u ''fps'')) 0;
                    parts = (if truthy height then format_parts @ [py_str rt height @ u ''p'']
                             else format_parts)
                in if fps \<ge> 60 then parts @ [int_repr fps @ u ''fps''] else parts)
             else format_parts);
          format_parts =
            (if has_a \<or> truthy (dict_get fmt (u ''audio_ext'')) then
               (let abr = safe_int rt (dict_get fmt (u ''abr'')) 0
                in if abr > 0 then format_parts @ [int_repr abr @ u ''kbps''] else format_parts)
             else format_parts);
          filesize = py_or (dict_get fmt (u ''filesize'')) (dict_get fmt (u ''filesize_approx''))
      in if truthy filesize
         then ebind (format_filesize rt filesize) (\<lambda>size_str.
                Inr (format_parts @ [u ''['' @ size_str @ u '']'']))
         else Inr format_parts)"

definition format_filename :: "runtime \<Rightarrow> ustr \<Rightarrow> pyval \<Rightarrow> pyval \<Rightarrow> pyerr + ustr" where
  "format_filename rt title height video_id =
     (let filename_parts = [title];
          filename_parts = (if truthy height then filename_parts @ [py_str rt height @ u ''p'']
                            else filename_parts)
      in ebind (if truthy video_id
                then ebind (py_len video_id) (\<lambda>n. Inr (n \<le> 12)) else Inr False) (\<lambda>short_id.
           Inr (py_join (u ''_'')
                  (if short_id then filename_parts @ [u ''['' @ py_str rt video_id @ u '']'']
                   else filename_parts))))"

definition fragment_paths :: "pyval \<Rightarrow> pyerr + pyval list" where
  "fragment_paths fragments =
     ebind (py_iter fragments) (\<lambda>fs.
       emap (\<lambda>f. ebind (as_dict f) (\<lambda>fd.
               Inr (PDict [(u ''path'',
                      dict_get_default fd (u ''path'') (dict_get_default fd (u ''url'') (PStr [])))])))
         fs)"

definition transform_format ::
  "runtime \<Rightarrow> pydict \<Rightarrow> ustr \<Rightarrow> pyval \<Rightarrow> pyerr + pydict option" where
  "transform_format rt fmt title video_id =
     (let url = dict_get fmt (u ''url'') in
      if \<not> truthy url then Inr None
      else
        ebind (pick_protocol fmt url) (\<lambda>protocol.
        let ext = dict_get_default fmt (u ''ext'') (PStr (u ''mp4''));
            height = dict_get fmt (u ''height'');
            result =
              [(u ''url'', url),
               (u ''protocol'', protocol),
               (u ''ext'', ext),
               (u ''filesize'',
                  py_or (dict_get fmt (u ''filesize'')) (dict_get fmt (u ''filesize_approx''))),
               (u ''quality'', PInt (safe_int rt (dict_get fmt (u ''quality'')) 0)),
               (u ''preference'', PInt (safe_int rt (dict_get fmt (u ''preference'')) 0)),
               (u ''tbr'', dict_get fmt (u ''tbr''))];
            vcodec = dict_get_default fmt (u ''vcodec'') (PStr (u ''none''));
            has_v = (truthy vcodec \<and> vcodec \<noteq> PStr (u ''none''));
            result =
              (if has_v then
                 dict_set (dict_set (dict_set (dict_set (dict_set result
                   (u ''video_ext'') ext)
                   (u ''vcodec'') vcodec)
                   (u ''height'') height)
                   (u ''width'') (dict_get fmt (u ''width'')))
                   (u ''fps'') (dict_get fmt (u ''fps''))
               else result);
            acodec = dict_get_default fmt (u ''acodec'') (PStr (u ''none''));
            has_a = (truthy acodec \<and> acodec \<noteq> PStr (u ''none''));
            result =
              (if has_a then
                 dict_set (dict_set (dict_set result
                   (u ''audio_ext'')
                      (if has_v then ext else dict_get_default fmt (u ''audio_ext'') ext))
                   (u ''acodec'') acodec)
                   (u ''abr'') (dict_get fmt (u ''abr''))
               else result);
            result =
              (if truthy (dict_get fmt (u ''audio_ext'')) \<and> \<not> has_a then
                 dict_set (dict_set (dict_set result
                   (u ''audio_ext'') (dict_get fmt (u ''audio_ext'')))
                   (u ''acodec'') (dict_get_default fmt (u ''acodec'') (PStr (u ''aac''))))
                   (u ''abr'') (dict_get fmt (u ''abr''))
               else result)
        in
        ebind (format_description rt fmt has_v has_a height ext) (\<lambda>format_parts.
        let result =
              (if format_parts \<noteq> [] then
                 dict_set result (u ''format'')
                   (PStr (py_join (u '' '') format_parts @ u '' ('' @ py_str rt ext @ u '')''))
               else result)
        in
        ebind (if title \<noteq> []
               then ebind (format_filename rt title height video_id) (\<lambda>name.
                      Inr (dict_set result (u ''_filename'') (PStr name)))
               else Inr result) (\<lambda>result.
        let result =
              (if truthy (dict_get fmt (u ''language'')) then
                 dict_set (dict_set result
                   (u ''language'') (dict_get fmt (u ''language'')))
                   (u ''languagePreference'')
                      (dict_get_default fmt (u ''language_preference'') (PInt 0))
               else result);
            http_headers = dict_get_default fmt (u ''http_headers'') (PDict []);
            result = (if truthy http_headers then dict_set result (u ''httpHeaders'') http_headers
                      else result);
            result = (if protocol = PStr (u ''http_dash_segments'')
                      then dict_set result (u ''container'') (PStr (py_str rt ext @ u ''_dash''))
                      else result);
            fragments = dict_get_default fmt (u ''fragments'') (PList [])
        in
        ebind (if truthy fragments
               then ebind (fragment_paths fragments) (\<lambda>paths.
                      Inr (dict_set (dict_set result
                        (u ''fragment_base_url'')
                           (dict_get_default fmt (u ''fragment_base_url'') (PStr [])))
                        (u ''fragments'') (PList paths)))
               else Inr result) (\<lambda>result.
        let result = (if protocol = PStr (u ''m3u8_native'')
                      then dict_set result (u ''manifestUrl'')
                             (dict_get_default fmt (u ''manifest_url'') url)
                      else result)
        in Inr (Some result))))))"

subsection \<open>\<open>transform_playlist_info\<close>\<close>

definition playlist_entry :: "pyval \<Rightarrow> pyerr + pyval list" where
  "playlist_entry entry =
     (if truthy entry then
        ebind (as_dict entry) (\<lambda>e.
          Inr [PDict
                 [(u ''_type'', PStr (u ''url'')),
                  (u ''url'', dict_get_default e (u ''url'')
                                (dict_get_default e (u ''webpage_url'') (PStr []))),
                  (u ''title'', dict_get_default e (u ''title'') (PStr (u ''Unknown''))),
                  (u ''duration'', dict_get e (u ''duration''))]])
      else Inr [])"

definition transform_playlist_info :: "pydict \<Rightarrow> pyerr + pydict" where
  "transform_playlist_info data =
     ebind (py_iter (dict_get_default data (u ''entries'') (PList []))) (\<lambda>raw_entries.
     ebind (emap playlist_entry raw_entries) (\<lambda>entries.
       Inr [(u ''_type'', PStr (u ''playlist'')),
            (u ''id'', dict_get_default data (u ''id'') (PStr [])),
            (u ''title'', dict_get_default data (u ''title'') (PStr (u ''Playlist''))),
            (u ''webpage_url'', dict_get_default data (u ''webpage_url'') (PStr [])),
            (u ''entries'', PList (concat entries))]))"

subsection \<open>\<open>transform_single\<close>\<close>

text \<open>
  The upload date: \<open>if upload_date and len(upload_date) == 8\<close>, then the three slices
  \<open>[:4]\<close>, \<open>[4:6]\<close>, \<open>[6:8]\<close> joined by \<open>-\<close>. The slices of a string are strings, those
  of a list are lists (printed by \<open>str\<close>); a dict cannot be sliced (TypeError; KeyError
  from Python 3.12 on).
\<close>

definition iso_date :: "ustr \<Rightarrow> ustr" where
  "iso_date s = take 4 s @ u ''-'' @ take 2 (drop 4 s) @ u ''-'' @ take 2 (drop 6 s)"

definition with_upload_date :: "runtime \<Rightarrow> pyval \<Rightarrow> pydict \<Rightarrow> pyerr + pydict" where
  "with_upload_date rt upload_date result =
     (if truthy upload_date then
        ebind (py_len upload_date) (\<lambda>n.
          if n = 8 then
            (case upload_date of
               PStr s \<Rightarrow> Inr (dict_set result (u ''upload_date'') (PStr (iso_date s)))
             | PList xs \<Rightarrow>
                 Inr (dict_set result (u ''upload_date'')
                   (PStr (py_str rt (PList (take 4 xs)) @ u ''-''
                          @ py_str rt (PList (take 2 (drop 4 xs))) @ u ''-''
                          @ py_str rt (PList (take 2 (drop 6 xs))))))
             | _ \<Rightarrow> Inl TypeError)
          else Inr result)
      else Inr result)"

text \<open>
  The formats: the raw list (or the record itself), reconciled, each entry transformed,
  then filtered. \<open>merge_video_audio_formats\<close> calls \<open>fmt.get\<close> on every element first.
\<close>

definition raw_formats :: "pydict \<Rightarrow> pyerr + pydict list" where
  "raw_formats data =
     (let formats = dict_get_default data (u ''formats'') (PList []) in
      if \<not> truthy formats \<and> truthy (dict_get data (u ''url''))
      then Inr [data]
      else ebind (py_iter formats) (emap as_dict))"

definition kept_format :: "pydict \<Rightarrow> bool" where
  "kept_format fmt =
     (let has_v = (truthy (dict_get fmt (u ''vcodec''))
                   \<and> dict_get fmt (u ''vcodec'') \<noteq> PStr (u ''none''));
          has_a = (truthy (dict_get fmt (u ''acodec''))
                   \<and> dict_get fmt (u ''acodec'') \<noteq> PStr (u ''none''));
          has_audio_ext = truthy (dict_get fmt (u ''audio_ext''))
      in (has_v \<and> has_a) \<or> (\<not> has_v \<and> has_a) \<or> has_audio_ext
         \<or> truthy (dict_get fmt (u ''_video_only'')))"

definition transformed_formats ::
  "runtime \<Rightarrow> pydict \<Rightarrow> ustr \<Rightarrow> pyval \<Rightarrow> pyerr + pydict list" where
  "transformed_formats rt data clean_title video_id =
     ebind (raw_formats data) (\<lambda>formats.
     ebind (merge_video_audio_formats rt formats) (\<lambda>processed_formats.
     ebind (emap (\<lambda>fmt. transform_format rt fmt clean_title video_id) processed_formats)
       (\<lambda>fmt_objs.
         let formats = concat (map (\<lambda>fmt_obj. case fmt_obj of
                                       None \<Rightarrow> []
                                     | Some d \<Rightarrow> (if d \<noteq> [] then [d] else [])) fmt_objs);
             filtered_formats = filter kept_format formats
         in Inr (if filtered_formats \<noteq> [] then filtered_formats else formats))))"

definition subtitle_entry :: "ustr \<Rightarrow> pyval \<Rightarrow> pyerr + pyval" where
  "subtitle_entry lang sub =
     ebind (as_dict sub) (\<lambda>sd.
       Inr (PDict [(u ''name'', dict_get_default sd (u ''name'') (PStr lang)),
                   (u ''url'', dict_get_default sd (u ''url'') (PStr [])),
                   (u ''ext'', dict_get_default sd (u ''ext'') (PStr (u ''vtt'')))]))"

fun subtitle_tracks :: "(ustr \<times> pyval) list \<Rightarrow> pydict \<Rightarrow> pyerr + pydict" where
  "subtitle_tracks [] acc = Inr acc"
| "subtitle_tracks ((lang, subs) # rest) acc =
     (case subs of
        PList xs \<Rightarrow>
          (if xs \<noteq> [] then
             ebind (emap (subtitle_entry lang) xs) (\<lambda>tracks.
               subtitle_tracks rest (dict_set acc lang (PList tracks)))
           else subtitle_tracks rest acc)
      | _ \<Rightarrow> subtitle_tracks rest acc)"

definition transformed_subtitles :: "pydict \<Rightarrow> pyerr + pydict" where
  "transformed_subtitles data =
     ebind (as_dict (dict_get_default data (u ''subtitles'') (PDict []))) (\<lambda>subtitles.
       subtitle_tracks subtitles [])"

definition thumbnail_entry :: "runtime \<Rightarrow> pyval \<Rightarrow> pyerr + pyval list" where
  "thumbnail_entry rt thumb =
     ebind (as_dict thumb) (\<lambda>t.
       if truthy (dict_get t (u ''url'')) then
         Inr [PDict [(u ''url'', dict_get t (u ''url'')),
                     (u ''width'', dict_get t (u ''width'')),
                     (u ''height'', dict_get t (u ''height'')),
                     (u ''preference'', PInt (safe_int rt (dict_get t (u ''preference'')) 0))]]
       else Inr [])"

definition transformed_thumbnails :: "runtime \<Rightarrow> pydict \<Rightarrow> pyerr + pyval list" where
  "transformed_thumbnails rt data =
     ebind (py_iter (dict_get_default data (u ''thumbnails'') (PList []))) (\<lambda>thumbnails.
     ebind (emap (thumbnail_entry rt) thumbnails) (\<lambda>entries. Inr (concat entries)))"

definition no_formats_note :: "runtime \<Rightarrow> pydict \<Rightarrow> pydict" where
  "no_formats_note rt result =
     (let version = (case rt_ytdlp_version rt of None \<Rightarrow> PNone | Some v \<Rightarrow> PStr v);
          result = dict_set result (u ''_error'') (PStr (u ''No downloadable formats found''));
          result = dict_set result (u ''_ytdlp_version'') version;
          result = dict_set result (u ''_hint'') (PStr (u ''Try updating yt-dlp: yt-dlp -U''))
      in result)"

definition transform_single :: "runtime \<Rightarrow> pydict \<Rightarrow> pyerr + pydict" where
  "transform_single rt data =
     (if dict_get data (u ''_type'') = PStr (u ''playlist'') then transform_playlist_info data
      else
        let original_title = dict_get_default data (u ''title'') (PStr (u ''Unknown Title'')) in
        ebind (sanitize_title rt original_title) (\<lambda>clean_title.
        let video_id = dict_get_default data (u ''id'') (PStr []);
            result =
              [(u ''id'', video_id),
               (u ''title'', PStr clean_title),
               (u ''original_title'', original_title),
               (u ''webpage_url'',
                  dict_get_default data (u ''webpage_url'')
                    (dict_get_default data (u ''url'') (PStr []))),
               (u ''duration'', dict_get data (u ''duration'')),
               (u ''formats'', PList []),
               (u ''subtitles'', PDict []),
               (u ''thumbnails'', PList [])]
        in
        ebind (with_upload_date rt (dict_get data (u ''upload_date'')) result) (\<lambda>result.
        ebind (transformed_formats rt data clean_title video_id) (\<lambda>formats.
        let result = dict_set result (u ''formats'') (PList (map PDict formats));
            result = (if formats = [] then no_formats_note rt result else result)
        in
        ebind (transformed_subtitles data) (\<lambda>subtitles.
        let result = dict_set result (u ''subtitles'') (PDict subtitles) in
        ebind (transformed_thumbnails rt data) (\<lambda>thumbnails.
          Inr (dict_set result (u ''thumbnails'') (PList thumbnails))))))))"

text \<open>The record \<open>transform_single\<close> starts from.\<close>

definition base_record :: "pydict \<Rightarrow> ustr \<Rightarrow> pydict" where
  "base_record data clean_title =
     [(u ''id'', dict_get_default data (u ''id'') (PStr [])),
      (u ''title'', PStr clean_title),
      (u ''original_title'', dict_get_default data (u ''title'') (PStr (u ''Unknown Title''))),
      (u ''webpage_url'',
         dict_get_default data (u ''webpage_url'') (dict_get_default data (u ''url'') (PStr []))),
      (u ''duration'', dict_get data (u ''duration'')),
      (u ''formats'', PList []),
      (u ''subtitles'', PDict []),
      (u ''thumbnails'', PList [])]"

text \<open>
  The \<open>upload_date\<close> field in the words of the claim: present, as \<open>YYYY-MM-DD\<close>, exactly
  for a raw string of eight digits.
\<close>

definition ascii_digit :: "codepoint \<Rightarrow> bool" where
  "ascii_digit c \<longleftrightarrow> 48 \<le> c \<and> c \<le> 57"

definition claimed_upload_date :: "pyval \<Rightarrow> pyval option" where
  "claimed_upload_date raw =
     (case raw of
        PStr s \<Rightarrow> (if length s = 8 \<and> list_all ascii_digit s then Some (PStr (iso_date s)) else None)
      | _ \<Rightarrow> None)"

section \<open>The reconciler on a store\<close>

text \<open>
  To say what \<open>merge_video_audio_formats\<close> leaves unchanged, the same code is read once
  more with its objects in a store. An address is an index into the store; a list object
  holds the addresses of its elements, a dict object holds its items (their values are
  never mutated by this function, so they are kept by value). Allocation appends to the
  store; \<open>d[k] = v\<close>, \<open>xs.append(x)\<close> and \<open>xs.sort()\<close> overwrite the object at an
  address.
\<close>

datatype obj = ODict pydict | OList "nat list"

type_synonym store = "obj list"

type_synonym 'a prog = "store \<Rightarrow> pyerr + ('a \<times> store)"

definition sreturn :: "'a \<Rightarrow> 'a prog" where
  "sreturn x s = Inr (x, s)"

definition sbind :: "'a prog \<Rightarrow> ('a \<Rightarrow> 'b prog) \<Rightarrow> 'b prog" where
  "sbind m f s = (case m s of Inl e \<Rightarrow> Inl e | Inr (x, s') \<Rightarrow> f x s')"

fun sforeach :: "('a \<Rightarrow> unit prog) \<Rightarrow> 'a list \<Rightarrow> unit prog" where
  "sforeach f [] = sreturn ()"
| "sforeach f (x # xs) = sbind (f x) (\<lambda>_. sforeach f xs)"

fun smap :: "('a \<Rightarrow> 'b prog) \<Rightarrow> 'a list \<Rightarrow> 'b list prog" where
  "smap f [] = sreturn []"
| "smap f (x # xs) = sbind (f x) (\<lambda>y. sbind (smap f xs) (\<lambda>ys. sreturn (y # ys)))"

text \<open>
  Reading an object. A format must be a dict to have \<open>.get\<close>; the argument \<open>formats\<close>
  and the function's own lists are lists. An address outside the store does not occur.
\<close>

definition read_dict :: "nat \<Rightarrow> pydict prog" where
  "read_dict a s =
     (if a < length s then (case s ! a of ODict d \<Rightarrow> Inr (d, s) | OList xs \<Rightarrow> Inl AttributeError)
      else Inl OutsideModel)"

definition read_list :: "nat \<Rightarrow> nat list prog" where
  "read_list a s =
     (if a < length s then (case s ! a of OList xs \<Rightarrow> Inr (xs, s) | ODict d \<Rightarrow> Inl OutsideModel)
      else Inl OutsideModel)"

definition new_list :: "nat prog" where
  "new_list s = Inr (length s, s @ [OList []])"

definition dict_copy :: "nat \<Rightarrow> nat prog" where
  "dict_copy a = sbind (read_dict a) (\<lambda>d s. Inr (length s, s @ [ODict d]))"

definition dict_setitem :: "nat \<Rightarrow> ustr \<Rightarrow> pyval \<Rightarrow> unit prog" where
  "dict_setitem a k v = sbind (read_dict a) (\<lambda>d s. Inr ((), s[a := ODict (dict_set d k v)]))"

definition list_write :: "nat \<Rightarrow> nat list \<Rightarrow> unit prog" where
  "list_write a ys = sbind (read_list a) (\<lambda>xs s. Inr ((), s[a := OList ys]))"

definition list_append :: "nat \<Rightarrow> nat \<Rightarrow> unit prog" where
  "list_append a x = sbind (read_list a) (\<lambda>xs. list_write a (xs @ [x]))"

text \<open>\<open>xs.sort(key=..., reverse=True)\<close>, in place; the key reads the dict of each element.\<close>

definition sort_in_place :: "(pydict \<Rightarrow> 'k::linorder) \<Rightarrow> nat \<Rightarrow> unit prog" where
  "sort_in_place key a =
     sbind (read_list a) (\<lambda>xs.
     sbind (smap read_dict xs) (\<lambda>ds.
       list_write a (map fst (stable_sort_desc (\<lambda>xd. key (snd xd)) (zip xs ds)))))"

definition py_sort_in_place :: "(pydict \<Rightarrow> pyval) \<Rightarrow> nat \<Rightarrow> unit prog" where
  "py_sort_in_place key a =
     sbind (read_list a) (\<lambda>xs.
     sbind (smap read_dict xs) (\<lambda>ds.
       case py_sort_desc (\<lambda>xd. key (snd xd)) (zip xs ds) of
         Inl e \<Rightarrow> (\<lambda>s. Inl e)
       | Inr ordered \<Rightarrow> list_write a (map fst ordered)))"

text \<open>\<open>target[k] = g(source)\<close>, where \<open>g\<close> reads the dict at \<open>source\<close>.\<close>

definition setitem_from :: "nat \<Rightarrow> ustr \<Rightarrow> nat \<Rightarrow> (pydict \<Rightarrow> pyval) \<Rightarrow> unit prog" where
  "setitem_from target k source g = sbind (read_dict source) (\<lambda>d. dict_setitem target k (g d))"

definition partition_formats :: "nat \<Rightarrow> nat \<Rightarrow> nat \<Rightarrow> nat list \<Rightarrow> unit prog" where
  "partition_formats combined video_only audio_only formats =
     sforeach (\<lambda>fmt.
       sbind (read_dict fmt) (\<lambda>d.
         if skipped d then sreturn ()
         else if is_combined_format d then list_append combined fmt
         else if has_video d then list_append video_only fmt
         else if has_audio d then list_append audio_only fmt
         else sreturn ())) formats"

definition pair_streams :: "nat \<Rightarrow> nat \<Rightarrow> nat \<Rightarrow> unit prog" where
  "pair_streams video_only audio_only result =
     sbind (read_list video_only) (\<lambda>vs.
     sbind (read_list audio_only) (\<lambda>as.
       if vs \<noteq> [] \<and> as \<noteq> [] then
         sbind (py_sort_in_place audio_sort_key audio_only) (\<lambda>_.
         sbind (read_list audio_only) (\<lambda>ordered.
           case ordered of
             [] \<Rightarrow> sreturn ()
           | best_audio # others \<Rightarrow>
               sbind (read_dict best_audio) (\<lambda>b.
                 if b \<noteq> [] then
                   sforeach (\<lambda>vfmt.
                     sbind (dict_copy vfmt) (\<lambda>merged.
                     sbind (setitem_from merged (u ''acodec'') best_audio
                              (\<lambda>b. dict_get_default b (u ''acodec'') (PStr (u ''aac'')))) (\<lambda>_.
                     sbind (setitem_from merged (u ''abr'') best_audio
                              (\<lambda>b. dict_get b (u ''abr''))) (\<lambda>_.
                     sbind (setitem_from merged (u ''audio_ext'') best_audio
                              (\<lambda>b. dict_get_default b (u ''ext'') (PStr (u ''m4a'')))) (\<lambda>_.
                     sbind (setitem_from merged (u ''_audio_url'') best_audio
                              (\<lambda>b. dict_get b (u ''url''))) (\<lambda>_.
                     sbind (dict_setitem merged (u ''_needs_merge'') (PBool True)) (\<lambda>_.
                       list_append result merged))))))) vs
                 else sreturn ())))
       else sreturn ()))"

definition fallback_video_only :: "nat \<Rightarrow> nat \<Rightarrow> unit prog" where
  "fallback_video_only video_only result =
     sbind (read_list result) (\<lambda>rs.
     sbind (read_list video_only) (\<lambda>vs.
       if rs = [] \<and> vs \<noteq> [] then
         sforeach (\<lambda>vfmt.
           sbind (dict_copy vfmt) (\<lambda>vfmt_copy.
           sbind (dict_setitem vfmt_copy (u ''_video_only'') (PBool True)) (\<lambda>_.
             list_append result vfmt_copy))) vs
       else sreturn ()))"

definition append_audio_only :: "runtime \<Rightarrow> nat \<Rightarrow> nat \<Rightarrow> unit prog" where
  "append_audio_only rt audio_only result =
     sbind (read_list audio_only) (\<lambda>as.
       sforeach (\<lambda>fmt.
         sbind (dict_copy fmt) (\<lambda>fmt_copy.
         sbind (setitem_from fmt_copy (u ''preference'') fmt_copy
                  (\<lambda>d. PInt (safe_int rt (dict_get d (u ''preference'')) 0 - 50))) (\<lambda>_.
           list_append result fmt_copy))) as)"

fun dedupe_loop ::
  "runtime \<Rightarrow> nat \<Rightarrow> nat list \<Rightarrow> ustr list \<times> nat option \<Rightarrow> (ustr list \<times> nat option) prog" where
  "dedupe_loop rt video_formats [] st = sreturn st"
| "dedupe_loop rt video_formats (fmt # rest) st =
     sbind (read_dict fmt) (\<lambda>d.
       let height = py_or (dict_get d (u ''height'')) (PInt 0);
           has_v = (truthy (dict_get d (u ''vcodec''))
                    \<and> dict_get d (u ''vcodec'') \<noteq> PStr (u ''none''));
           has_a = (truthy (dict_get d (u ''acodec''))
                    \<and> dict_get d (u ''acodec'') \<noteq> PStr (u ''none''));
           has_audio_ext = truthy (dict_get d (u ''audio_ext''))
       in if has_v then
            (if has_a \<or> has_audio_ext then
               (let key = u ''video_'' @ py_str rt height in
                if key \<notin> set (fst st)
                then sbind (list_append video_formats fmt) (\<lambda>_.
                       dedupe_loop rt video_formats rest (fst st @ [key], snd st))
                else dedupe_loop rt video_formats rest st)
             else dedupe_loop rt video_formats rest st)
          else
            (if has_a \<and> snd st = None
             then dedupe_loop rt video_formats rest (fst st, Some fmt)
             else dedupe_loop rt video_formats rest st))"

definition deduplicate_heap :: "runtime \<Rightarrow> nat \<Rightarrow> nat prog" where
  "deduplicate_heap rt result =
     sbind new_list (\<lambda>video_formats.
     sbind (read_list result) (\<lambda>rs.
     sbind (dedupe_loop rt video_formats rs ([], None)) (\<lambda>st.
       case snd st of
         None \<Rightarrow> sreturn video_formats
       | Some best_audio \<Rightarrow>
           sbind (read_dict best_audio) (\<lambda>b.
             if b \<noteq> [] then sbind (list_append video_formats best_audio) (\<lambda>_.
                                sreturn video_formats)
             else sreturn video_formats))))"

definition merge_video_audio_formats_heap :: "runtime \<Rightarrow> nat \<Rightarrow> nat prog" where
  "merge_video_audio_formats_heap rt formats =
     sbind new_list (\<lambda>combined.
     sbind new_list (\<lambda>video_only.
     sbind new_list (\<lambda>audio_only.
     sbind (read_list formats) (\<lambda>fs.
     sbind (partition_formats combined video_only audio_only fs) (\<lambda>_.
     sbind new_list (\<lambda>result.
     sbind (read_list combined) (\<lambda>cs.
     sbind (sforeach (list_append result) cs) (\<lambda>_.
     sbind (pair_streams video_only audio_only result) (\<lambda>_.
     sbind (fallback_video_only video_only result) (\<lambda>_.
     sbind (append_audio_only rt audio_only result) (\<lambda>_.
     sbind (sort_in_place (get_format_quality_score rt) result) (\<lambda>_.
       deduplicate_heap rt result))))))))))))"

text \<open>
  A computation preserves the first \<open>n\<close> objects of the store, and its result satisfies
  \<open>post\<close>.
\<close>

definition preserves :: "nat \<Rightarrow> 'a prog \<Rightarrow> ('a \<Rightarrow> bool) \<Rightarrow> bool" where
  "preserves n m post \<longleftrightarrow>
     (\<forall>s x s'. n \<le> length s \<longrightarrow> m s = Inr (x, s') \<longrightarrow>
        length s \<le> length s' \<and> take n s' = take n s \<and> post x)"

text \<open>The dicts a list object refers to.\<close>

definition dicts_of :: "store \<Rightarrow> nat \<Rightarrow> pydict list" where
  "dicts_of s a =
     (case s ! a of
        OList xs \<Rightarrow> map (\<lambda>x. case s ! x of ODict d \<Rightarrow> d | OList ys \<Rightarrow> []) xs
      | ODict d \<Rightarrow> [])"

section \<open>Concrete inputs\<close>

text \<open>
  The two raw formats of end-to-end scenario 1, and the two entries the reconciler is to
  return for them.
\<close>

definition scenario1 :: "pydict list" where
  "scenario1 =
     [[(u ''height'', PInt 1080), (u ''vcodec'', PStr (u ''avc1'')), (u ''acodec'', PStr (u ''none'')),
       (u ''ext'', PStr (u ''mp4'')), (u ''url'', PStr (u ''A''))],
      [(u ''height'', PInt 0), (u ''vcodec'', PStr (u ''none'')), (u ''acodec'', PStr (u ''aac'')),
       (u ''abr'', PInt 128), (u ''ext'', PStr (u ''m4a'')), (u ''url'', PStr (u ''B''))]]"

definition scenario1_video :: pydict where
  "scenario1_video =
     [(u ''height'', PInt 1080), (u ''vcodec'', PStr (u ''avc1'')), (u ''acodec'', PStr (u ''aac'')),
      (u ''ext'', PStr (u ''mp4'')), (u ''url'', PStr (u ''A'')), (u ''abr'', PInt 128),
      (u ''audio_ext'', PStr (u ''m4a'')), (u ''_audio_url'', PStr (u ''B'')),
      (u ''_needs_merge'', PBool True)]"

definition scenario1_audio :: pydict where
  "scenario1_audio =
     [(u ''height'', PInt 0), (u ''vcodec'', PStr (u ''none'')), (u ''acodec'', PStr (u ''aac'')),
      (u ''abr'', PInt 128), (u ''ext'', PStr (u ''m4a'')), (u ''url'', PStr (u ''B'')),
      (u ''preference'', PInt (- 50))]"

text \<open>A single video-only format, with no audio stream beside it.\<close>

definition video_only_1080 :: pydict where
  "video_only_1080 =
     [(u ''url'', PStr (u ''A'')), (u ''vcodec'', PStr (u ''avc1'')), (u ''acodec'', PStr (u ''none'')),
      (u ''height'', PInt 1080), (u ''ext'', PStr (u ''mp4''))]"

text \<open>Two combined formats at height 1080 that differ in the container only.\<close>

definition combined_1080_mp4 :: pydict where
  "combined_1080_mp4 =
     [(u ''url'', PStr (u ''A'')), (u ''vcodec'', PStr (u ''avc1'')), (u ''acodec'', PStr (u ''aac'')),
      (u ''height'', PInt 1080), (u ''ext'', PStr (u ''mp4''))]"

definition combined_1080_webm :: pydict where
  "combined_1080_webm =
     [(u ''url'', PStr (u ''A'')), (u ''vcodec'', PStr (u ''avc1'')), (u ''acodec'', PStr (u ''aac'')),
      (u ''height'', PInt 1080), (u ''ext'', PStr (u ''webm''))]"

text \<open>
  The first of them with the height written \<open>1080.0\<close> in the JSON text: a number with a
  fraction is a float, here one that equals the int \<open>1080\<close>.
\<close>

definition combined_1080_float :: pydict where
  "combined_1080_float =
     [(u ''url'', PStr (u ''A'')), (u ''vcodec'', PStr (u ''avc1'')), (u ''acodec'', PStr (u ''aac'')),
      (u ''height'', PFloat 1080), (u ''ext'', PStr (u ''mp4''))]"

text \<open>
  Raw records without formats: one with a well-formed upload date, one whose upload date
  has eight characters that are not digits, with the record returned for it.
\<close>

definition dated_record :: pydict where
  "dated_record =
     [(u ''id'', PStr (u ''abc'')), (u ''title'', PStr (u ''My: Video?'')),
      (u ''upload_date'', PStr (u ''20240131''))]"

definition misdated_record :: pydict where
  "misdated_record =
     [(u ''id'', PStr (u ''abc'')), (u ''title'', PStr (u ''My: Video?'')),
      (u ''upload_date'', PStr (u ''abcdefgh''))]"

definition misdated_output :: pydict where
  "misdated_output =
     [(u ''id'', PStr (u ''abc'')),
      (u ''title'', PStr (u ''My_Video'')),
      (u ''original_title'', PStr (u ''My: Video?'')),
      (u ''webpage_url'', PStr []),
      (u ''duration'', PNone),
      (u ''formats'', PList []),
      (u ''subtitles'', PDict []),
      (u ''thumbnails'', PList []),
      (u ''upload_date'', PStr (u ''abcd-ef-gh'')),
      (u ''_error'', PStr (u ''No downloadable formats found'')),
      (u ''_ytdlp_version'', PStr (u ''2024.08.06'')),
      (u ''_hint'', PStr (u ''Try updating yt-dlp: yt-dlp -U''))]"

text \<open>A raw record whose only format is the video-only one above.\<close>

definition silent_video_record :: pydict where
  "silent_video_record =
     [(u ''id'', PStr (u ''abc'')), (u ''title'', PStr (u ''My: Video?'')),
      (u ''formats'', PList [PDict video_only_1080])]"

text \<open>
  Raw records without formats: one whose upload date is the number \<open>20240131\<close>, one
  whose thumbnails are \<open>null\<close>.
\<close>

definition numeric_date_record :: pydict where
  "numeric_date_record =
     [(u ''id'', PStr (u ''abc'')), (u ''title'', PStr (u ''My: Video?'')),
      (u ''upload_date'', PInt 20240131)]"

definition null_thumbnails_record :: pydict where
  "null_thumbnails_record =
     [(u ''id'', PStr (u ''abc'')), (u ''title'', PStr (u ''My: Video?'')),
      (u ''thumbnails'', PNone)]"

text \<open>Scenario 1 in a store: the two dicts, and the list \<open>formats\<close> at address 2.\<close>

definition scenario1_store :: store where
  "scenario1_store = [ODict (scenario1 ! 0), ODict (scenario1 ! 1), OList [0, 1]]"

text \<open>
  The store after the call: the lists \<open>combined\<close>, \<open>video_only\<close>, \<open>audio_only\<close> and
  \<open>result\<close>, the merged copy, the penalized copy, and the returned list at address 9.
\<close>

definition scenario1_store_after :: store where
  "scenario1_store_after =
     scenario1_store @
       [OList [], OList [0], OList [1], OList [7, 8],
        ODict scenario1_video, ODict scenario1_audio, OList [7, 8]]"

section \<open>A runtime for concrete runs\<close>

text \<open>
  The concrete runs below feed the runtime ASCII text only, on which NFKD is the identity
  and \<open>str.lower\<close> is ASCII lowering; they never parse an integer out of a string and never
  print a container, and the one float they print is \<open>1080.0\<close>, for which \<open>str\<close> gives
  \<open>"1080.0"\<close>. URLs are looked up in a table of what
  \<open>os.path.basename(unquote(urlparse(url).path))\<close> gives for them.
\<close>

definition example_url_basename :: "ustr \<Rightarrow> ustr" where
  "example_url_basename url =
     (if url = u ''https://x.com/a/report.pdf'' then u ''report.pdf''
      else if url = u ''https://x.com/watch?v=abc'' then u ''watch''
      else if url = u ''https://x.com/a.b%3Fc.pdf'' then u ''a.b?c.pdf''
      else if url = u ''https://x.com/a/REPORT.PDF'' then u ''REPORT.PDF''
      else [])"

definition example_repr :: "pyval \<Rightarrow> ustr" where
  "example_repr v = (if v = PFloat 1080 then u ''1080.0'' else [])"

definition example_runtime :: runtime where
  "example_runtime =
     \<lparr> rt_nfkd = (\<lambda>s. s),
       rt_lower = map ascii_lower,
       rt_isalnum = (\<lambda>c. False),
       rt_url_basename = example_url_basename,
       rt_int_of_str = (\<lambda>s. None),
       rt_repr = example_repr,
       rt_float_size_text = (\<lambda>v. Inr []),
       rt_find_ytdlp = Some (u ''/usr/bin/yt-dlp''),
       rt_ytdlp_version = Some (u ''2024.08.06'') \<rparr>"

section \<open>Properties of the filename sanitizer\<close>

lemma set_re_sub_runs: "set (re_sub_runs p new s) \<subseteq> set s \<union> set new"
proof (induction p new s rule: re_sub_runs.induct)
  case (1 p new)
  then show ?case by simp
next
  case (2 p new c cs)
  show ?case
  proof (cases "p c")
    case True
    with 2 have "set (re_sub_runs p new (dropWhile p cs)) \<subseteq> set (dropWhile p cs) \<union> set new"
      by simp
    moreover have "set (dropWhile p cs) \<subseteq> set cs"
      by (auto dest: set_dropWhileD)
    ultimately show ?thesis using True by auto
  next
    case False
    with 2 show ?thesis by auto
  qed
qed

lemma re_sub_runs_id: "\<forall>c\<in>set s. \<not> p c \<Longrightarrow> re_sub_runs p new s = s"
  by (induction s) auto

lemma set_py_rstrip: "set (py_rstrip chars s) \<subseteq> set s"
  unfolding py_rstrip_def by (auto dest: set_dropWhileD)

lemma set_py_lstrip: "set (py_lstrip chars s) \<subseteq> set s"
  unfolding py_lstrip_def by (auto dest: set_dropWhileD)

lemma set_py_strip: "set (py_strip chars s) \<subseteq> set s"
  unfolding py_strip_def using set_py_rstrip set_py_lstrip by blast

lemma set_py_prefix: "set (py_prefix s m) \<subseteq> set s"
  unfolding py_prefix_def by (auto dest: in_set_takeD)

lemma length_py_rstrip: "length (py_rstrip chars s) \<le> length s"
  unfolding py_rstrip_def using length_dropWhile_le[of "\<lambda>c. c \<in> set chars" "rev s"] by simp

lemma length_py_prefix: "0 \<le> m \<Longrightarrow> int (length (py_prefix s m)) \<le> m"
  unfolding py_prefix_def by simp

lemma safe_download: "list_all safe_char (u ''download'')"
  by (simp add: safe_char_def invalid_char_def u_def)

text \<open>The cleaned text before the final fallback to \<open>"download"\<close>.\<close>

lemma sanitize_filename_cases:
  "\<exists>clean. set clean \<subseteq> {c. safe_char c} \<and> (0 \<le> m \<longrightarrow> int (length clean) \<le> m) \<and>
     sanitize_filename rt title m =
       (if title = [] \<or> clean = [] then u ''download'' else clean)"
proof -
  define a0 where "a0 =
    (if 10 * length (encode_ascii_ignore (rt_nfkd rt title)) < 3 * length title
     then encode_ascii_ignore
            (rt_nfkd rt (fold (\<lambda>(old, new) temp. str_replace_char old new temp) replacements title))
     else encode_ascii_ignore (rt_nfkd rt title))"
  define c1 where "c1 = filter (\<lambda>c. \<not> invalid_char c) a0"
  define c2 where "c2 = re_sub_runs (\<lambda>c. re_space c \<or> c = 95) (u ''_'') c1"
  define c3 where "c3 = py_strip (u ''_. '') c2"
  define c4 where "c4 =
    (if int (length c3) > m then py_rstrip (u ''_'') (py_prefix c3 m) else c3)"
  have res: "sanitize_filename rt title m =
      (if title = [] \<or> c4 = [] then u ''download'' else c4)"
    by (simp add: sanitize_filename_def Let_def a0_def c1_def c2_def c3_def c4_def)
  have "\<forall>x\<in>set a0. x < 128"
    by (auto simp: a0_def encode_ascii_ignore_def)
  then have s1: "\<forall>x\<in>set c1. safe_char x"
    by (auto simp: c1_def safe_char_def)
  have "set c2 \<subseteq> set c1 \<union> set (u ''_'')"
    unfolding c2_def by (rule set_re_sub_runs)
  moreover have "safe_char 95"
    by (simp add: safe_char_def invalid_char_def)
  ultimately have s2: "\<forall>x\<in>set c2. safe_char x"
    using s1 by (auto simp: u_def)
  have s3: "\<forall>x\<in>set c3. safe_char x"
    using s2 set_py_strip[of "u ''_. ''" c2] by (auto simp: c3_def)
  have "set c4 \<subseteq> set c3"
    using set_py_rstrip[of "u ''_''" "py_prefix c3 m"] set_py_prefix[of c3 m]
    by (auto simp: c4_def)
  with s3 have safe: "set c4 \<subseteq> {c. safe_char c}" by auto
  have len: "int (length c4) \<le> m" if "0 \<le> m"
    using length_py_rstrip[of "u ''_''" "py_prefix c3 m"] length_py_prefix[OF that, of c3]
    by (auto simp: c4_def)
  from res safe len show ?thesis by blast
qed

text \<open>
  C5, as amended. For every title and every positive \<open>max_length\<close> the result is non-empty,
  is ASCII, and has none of \<open>\ / : * ? " < > |\<close> and no control character \<open>0x00-0x1F\<close>. Its
  length is at most \<open>max_length\<close> unless it is the fallback literal \<open>"download"\<close>, which is
  returned whatever \<open>max_length\<close> is; the empty title gives \<open>"download"\<close>.
\<close>

theorem sanitize_filename_safe:
  assumes "0 < max_length"
  shows "sanitize_filename rt title max_length \<noteq> []
    \<and> list_all safe_char (sanitize_filename rt title max_length)
    \<and> (int (length (sanitize_filename rt title max_length)) \<le> max_length
        \<or> sanitize_filename rt title max_length = u ''download'')
    \<and> sanitize_filename rt [] max_length = u ''download''"
proof -
  obtain clean where c: "set clean \<subseteq> {c. safe_char c}"
      "0 \<le> max_length \<longrightarrow> int (length clean) \<le> max_length"
      "sanitize_filename rt title max_length =
         (if title = [] \<or> clean = [] then u ''download'' else clean)"
    using sanitize_filename_cases[of max_length rt title] by blast
  have ne: "u ''download'' \<noteq> []" by (simp add: u_def)
  have "list_all safe_char clean"
    using c(1) by (auto simp: list_all_iff)
  moreover have "int (length clean) \<le> max_length"
    using assms c(2) by simp
  moreover have "sanitize_filename rt [] max_length = u ''download''"
    by (simp add: sanitize_filename_def)
  ultimately show ?thesis
    using ne safe_download c(3) by simp
qed

theorem sanitize_filename_safe_witness:
  "(0::int) < 200
   \<and> sanitize_filename example_runtime (u ''My: Video?'') 200 = u ''My_Video''
   \<and> list_all safe_char (sanitize_filename example_runtime (u ''My: Video?'') 200)
   \<and> int (length (sanitize_filename example_runtime (u ''My: Video?'') 200)) \<le> 200
   \<and> sanitize_filename example_runtime [] 200 = u ''download''"
proof -
  have h: "(0::int) < 200" by simp
  have e: "sanitize_filename example_runtime (u ''My: Video?'') 200 = u ''My_Video''"
    by (simp add: sanitize_filename_def example_runtime_def u_def encode_ascii_ignore_def
        invalid_char_def re_space_def py_strip_def py_lstrip_def py_rstrip_def py_prefix_def)
  show ?thesis
    using sanitize_filename_safe[OF h, of example_runtime "u ''My: Video?''"] h e
    by (simp add: u_def)
qed

text \<open>
  C5 as stated fails: with \<open>max_length = 5\<close> the empty title gives \<open>"download"\<close>, eight
  characters.
\<close>

theorem sanitize_filename_length_counterexample:
  "sanitize_filename example_runtime [] 5 = u ''download''
   \<and> \<not> int (length (sanitize_filename example_runtime [] 5)) \<le> 5"
  by (simp add: sanitize_filename_def u_def)

lemma sanitize_filename_clean_title:
  assumes "title \<noteq> []" "rt_nfkd rt title = title" "encode_ascii_ignore title = title"
    "filter (\<lambda>c. \<not> invalid_char c) title = title"
    "re_sub_runs (\<lambda>c. re_space c \<or> c = 95) (u ''_'') title = title"
    "py_strip (u ''_. '') title = title"
  shows "sanitize_filename rt title m =
    (if int (length title) > m
     then (if py_rstrip (u ''_'') (py_prefix title m) = [] then u ''download''
           else py_rstrip (u ''_'') (py_prefix title m))
     else title)"
  unfolding sanitize_filename_def Let_def using assms by simp

lemma sanitize_filename_cut_before_dot:
  assumes "0 < n"
  shows "sanitize_filename example_runtime (replicate n 97 @ [46, 98]) (int n + 1)
           = replicate n 97 @ [46]"
proof -
  obtain k where n: "n = Suc k" using assms by (cases n) auto
  let ?t = "replicate n 97 @ [46, 98::nat]"
  have a: "encode_ascii_ignore ?t = ?t" by (simp add: encode_ascii_ignore_def)
  have b: "filter (\<lambda>c. \<not> invalid_char c) ?t = ?t" by (simp add: invalid_char_def)
  have c: "re_sub_runs (\<lambda>c. re_space c \<or> c = 95) (u ''_'') ?t = ?t"
    by (rule re_sub_runs_id) (auto simp: re_space_def)
  have d: "py_strip (u ''_. '') ?t = ?t"
    by (simp add: py_strip_def py_lstrip_def py_rstrip_def u_def n)
  have e: "py_rstrip (u ''_'') (py_prefix ?t (int n + 1)) = replicate n 97 @ [46]"
    by (simp add: py_rstrip_def py_prefix_def u_def nat_add_distrib)
  have f: "rt_nfkd example_runtime ?t = ?t" by (simp add: example_runtime_def)
  have g: "?t \<noteq> []" by simp
  show ?thesis
    unfolding sanitize_filename_clean_title[OF g f a b c d] e by simp
qed

text \<open>
  With the default \<open>max_length = 200\<close>: a title of 199 letters \<open>a\<close> followed by \<open>.b\<close> is cut
  after the dot, and the result ends with the dot.
\<close>

lemma sanitize_filename_default_trailing_dot:
  "sanitize_filename example_runtime (replicate 199 97 @ u ''.b'') 200 = replicate 199 97 @ u ''.''"
  using sanitize_filename_cut_before_dot[of 199] by (simp add: u_def)

text \<open>
  C6. The claim is that no result starts or ends with an underscore, a dot or a space, also
  after truncation. The truncation step strips underscores only
  (\<open>clean[:max_length].rstrip('_')\<close>, where the step before used \<open>strip('_. ')\<close>):
  \<open>sanitize_filename("a.b", 2)\<close> is \<open>"a."\<close>, which ends with a dot.
\<close>

theorem sanitize_filename_trailing_dot:
  "sanitize_filename example_runtime (u ''a.b'') 2 = u ''a.''
   \<and> last (sanitize_filename example_runtime (u ''a.b'') 2) = of_char (CHR ''.'')"
  by (simp add: sanitize_filename_def example_runtime_def u_def encode_ascii_ignore_def
      invalid_char_def re_space_def py_strip_def py_lstrip_def py_rstrip_def py_prefix_def)

section \<open>Properties of the URL classifier\<close>

lemmas ext_defs = ALL_DIRECT_EXTENSIONS_def ARCHIVE_EXTENSIONS_def EXECUTABLE_EXTENSIONS_def
  DOCUMENT_EXTENSIONS_def IMAGE_EXTENSIONS_def AUDIO_EXTENSIONS_def VIDEO_EXTENSIONS_def
  FONT_EXTENSIONS_def CODE_EXTENSIONS_def

lemma all_direct_union: "ext \<in> set ALL_DIRECT_EXTENSIONS \<longleftrightarrow> in_a_category_set ext"
  by (auto simp: ALL_DIRECT_EXTENSIONS_def in_a_category_set_def)

lemma all_direct_wellformed:
  "list_all (\<lambda>e. list_all lower_alnum e \<and> e \<noteq> [] \<and> length e \<le> 10) ALL_DIRECT_EXTENSIONS"
  by (simp add: ext_defs u_def lower_alnum_def)

lemma py_lower_fixed: "list_all lower_alnum e \<Longrightarrow> py_lower rt e = e"
proof -
  assume a: "list_all lower_alnum e"
  then have "list_all (\<lambda>c. c < 128) e" by (auto simp: list_all_iff lower_alnum_def)
  moreover have "map ascii_lower e = e"
    using a by (induction e) (auto simp: lower_alnum_def ascii_lower_def)
  ultimately show ?thesis by (simp add: py_lower_def)
qed

lemma category_of_member:
  assumes "ext \<in> set ALL_DIRECT_EXTENSIONS"
  shows "get_file_category rt ext \<noteq> u ''file''"
proof -
  have "list_all lower_alnum ext"
    using all_direct_wellformed assms by (auto simp: list_all_iff)
  then have l: "py_lower rt ext = ext" by (rule py_lower_fixed)
  have "in_a_category_set ext" using assms by (simp add: all_direct_union)
  then show ?thesis
    unfolding get_file_category_def Let_def l in_a_category_set_def
    by (auto simp: u_def)
qed

lemma before_first_absent: "sep \<notin> set s \<Longrightarrow> before_first sep s = s"
  by (auto simp: before_first_def takeWhile_eq_all_conv)

lemma no_dot_in_download: "46 \<notin> set (u ''download'')"
  by (simp add: u_def)

lemma extract_filename_cut:
  "extract_filename_from_url rt url =
     (if before_first 63 (rt_url_basename rt url) \<noteq> []
      then before_first 63 (rt_url_basename rt url) else u ''download'')"
  by (simp add: extract_filename_from_url_def Let_def before_first_absent)

lemma is_direct_amended: "is_direct_download_url rt url \<longleftrightarrow> amended_direct rt url"
proof (cases "before_first 63 (rt_url_basename rt url) = []")
  case True
  then show ?thesis
    using no_dot_in_download
    by (simp add: is_direct_download_url_def get_extension_from_url_def amended_direct_def
        extract_filename_cut Let_def)
next
  case False
  then show ?thesis
    by (auto simp: is_direct_download_url_def get_extension_from_url_def amended_direct_def
        extract_filename_cut Let_def all_direct_union)
qed

text \<open>
  C7, as amended. A URL is direct if and only if the last segment of its decoded path, cut
  at its first \<open>?\<close>, has a dot and the text after its last dot, lowercased, is
  alphanumeric, at most ten characters long and in one of the eight category sets. A URL
  with no valid extension, or whose extension has category \<open>"file"\<close>, is not direct.
  \<open>https://x.com/a/report.pdf\<close> is direct with extension \<open>pdf\<close> and category
  \<open>document\<close>; \<open>https://x.com/watch?v=abc\<close> is not direct.
\<close>

theorem is_direct_download_url_iff:
  "(is_direct_download_url rt url \<longleftrightarrow> amended_direct rt url)
   \<and> (get_extension_from_url rt url = None \<longrightarrow> \<not> is_direct_download_url rt url)
   \<and> (\<forall>ext. get_extension_from_url rt url = Some ext \<and> get_file_category rt ext = u ''file''
          \<longrightarrow> \<not> is_direct_download_url rt url)
   \<and> (rt_url_basename rt (u ''https://x.com/a/report.pdf'') = u ''report.pdf'' \<longrightarrow>
        is_direct_download_url rt (u ''https://x.com/a/report.pdf'')
        \<and> get_extension_from_url rt (u ''https://x.com/a/report.pdf'') = Some (u ''pdf'')
        \<and> get_file_category rt (u ''pdf'') = u ''document'')
   \<and> (rt_url_basename rt (u ''https://x.com/watch?v=abc'') = u ''watch'' \<longrightarrow>
        \<not> is_direct_download_url rt (u ''https://x.com/watch?v=abc''))"
proof -
  have a: "get_extension_from_url rt url = None \<longrightarrow> \<not> is_direct_download_url rt url"
    by (simp add: is_direct_download_url_def)
  have b: "\<forall>ext. get_extension_from_url rt url = Some ext \<and> get_file_category rt ext = u ''file''
          \<longrightarrow> \<not> is_direct_download_url rt url"
    using category_of_member by (auto simp: is_direct_download_url_def)
  have lp: "py_lower rt (u ''pdf'') = u ''pdf''"
    by (rule py_lower_fixed) (simp add: u_def lower_alnum_def)
  have c: "is_direct_download_url rt (u ''https://x.com/a/report.pdf'')
        \<and> get_extension_from_url rt (u ''https://x.com/a/report.pdf'') = Some (u ''pdf'')
        \<and> get_file_category rt (u ''pdf'') = u ''document''"
    if h: "rt_url_basename rt (u ''https://x.com/a/report.pdf'') = u ''report.pdf''"
  proof -
    have f: "extract_filename_from_url rt (u ''https://x.com/a/report.pdf'') = u ''report.pdf''"
      by (simp add: extract_filename_cut h) (simp add: u_def before_first_def)
    have al: "after_last 46 (u ''report.pdf'') = u ''pdf''"
      by (simp add: after_last_def u_def)
    have an: "py_isalnum rt (u ''pdf'')"
      by (simp add: py_isalnum_def u_def ascii_alnum_def)
    have e: "get_extension_from_url rt (u ''https://x.com/a/report.pdf'') = Some (u ''pdf'')"
      unfolding get_extension_from_url_def f Let_def al lp using an by (simp add: u_def)
    have m: "u ''pdf'' \<in> set DOCUMENT_EXTENSIONS" by (simp add: DOCUMENT_EXTENSIONS_def)
    have n: "u ''pdf'' \<notin> set ARCHIVE_EXTENSIONS" "u ''pdf'' \<notin> set EXECUTABLE_EXTENSIONS"
      by (simp_all add: ARCHIVE_EXTENSIONS_def EXECUTABLE_EXTENSIONS_def u_def)
    have d: "is_direct_download_url rt (u ''https://x.com/a/report.pdf'')"
      using m by (simp add: is_direct_download_url_def e ALL_DIRECT_EXTENSIONS_def)
    have g: "get_file_category rt (u ''pdf'') = u ''document''"
      unfolding get_file_category_def Let_def lp using m n by simp
    from d e g show ?thesis by simp
  qed
  have d: "\<not> is_direct_download_url rt (u ''https://x.com/watch?v=abc'')"
    if h: "rt_url_basename rt (u ''https://x.com/watch?v=abc'') = u ''watch''"
  proof -
    have "extract_filename_from_url rt (u ''https://x.com/watch?v=abc'') = u ''watch''"
      by (simp add: extract_filename_cut h) (simp add: u_def before_first_def)
    then have "get_extension_from_url rt (u ''https://x.com/watch?v=abc'') = None"
      by (simp add: get_extension_from_url_def) (simp add: u_def)
    then show ?thesis by (simp add: is_direct_download_url_def)
  qed
  from is_direct_amended a b c d show ?thesis by blast
qed

lemma ex_report: "rt_url_basename example_runtime (u ''https://x.com/a/report.pdf'') = u ''report.pdf''"
  by (simp add: example_runtime_def example_url_basename_def)

lemma ex_watch: "rt_url_basename example_runtime (u ''https://x.com/watch?v=abc'') = u ''watch''"
  by (simp add: example_runtime_def example_url_basename_def) (simp add: u_def)

theorem is_direct_download_url_iff_witness:
  "is_direct_download_url example_runtime (u ''https://x.com/a/report.pdf'')
   \<and> amended_direct example_runtime (u ''https://x.com/a/report.pdf'')
   \<and> rt_url_basename example_runtime (u ''https://x.com/a/report.pdf'') = u ''report.pdf''
   \<and> get_extension_from_url example_runtime (u ''https://x.com/a/report.pdf'') = Some (u ''pdf'')
   \<and> get_file_category example_runtime (u ''pdf'') = u ''document''
   \<and> rt_url_basename example_runtime (u ''https://x.com/watch?v=abc'') = u ''watch''
   \<and> get_extension_from_url example_runtime (u ''https://x.com/watch?v=abc'') = None
   \<and> \<not> is_direct_download_url example_runtime (u ''https://x.com/watch?v=abc'')"
proof -
  have "extract_filename_from_url example_runtime (u ''https://x.com/watch?v=abc'') = u ''watch''"
    by (simp add: extract_filename_cut ex_watch) (simp add: u_def before_first_def)
  then have "get_extension_from_url example_runtime (u ''https://x.com/watch?v=abc'') = None"
    by (simp add: get_extension_from_url_def) (simp add: u_def)
  with is_direct_download_url_iff[of example_runtime "u ''https://x.com/a/report.pdf''"]
    ex_report ex_watch
  show ?thesis by blast
qed

text \<open>
  C7 as stated fails in both directions. The decoded path of
  \<open>https://x.com/a.b%3Fc.pdf\<close> ends in the segment \<open>a.b?c.pdf\<close>, whose extension
  \<open>pdf\<close> is a document extension, but the code cuts the segment at \<open>?\<close> and sees the
  extension \<open>b\<close>. The extension \<open>PDF\<close> of \<open>https://x.com/a/REPORT.PDF\<close> is in
  none of the sets, but the code lowercases it first.
\<close>

theorem claimed_direct_counterexample:
  "claimed_direct example_runtime (u ''https://x.com/a.b%3Fc.pdf'')
   \<and> \<not> is_direct_download_url example_runtime (u ''https://x.com/a.b%3Fc.pdf'')
   \<and> is_direct_download_url example_runtime (u ''https://x.com/a/REPORT.PDF'')
   \<and> \<not> claimed_direct example_runtime (u ''https://x.com/a/REPORT.PDF'')"
  by (simp add: claimed_direct_def is_direct_download_url_def get_extension_from_url_def
      extract_filename_from_url_def example_runtime_def example_url_basename_def after_last_def
      before_first_def py_isalnum_def py_lower_def ascii_alnum_def ascii_lower_def
      in_a_category_set_def ext_defs u_def Let_def)

section \<open>Properties of the format reconciler\<close>

lemma u_eq_iff [simp]: "u a = u b \<longleftrightarrow> a = b"
  unfolding u_def by (simp add: inj_on_def)

lemma u_Nil [simp]: "u s = [] \<longleftrightarrow> s = []"
  by (simp add: u_def)

lemma map_of_dict_set: "map_of (dict_set d k v) = (map_of d)(k \<mapsto> v)"
  by (induction d) (auto simp: fun_eq_iff)

lemma dict_get_default_set [simp]:
  "dict_get_default (dict_set d k v) k' dflt = (if k' = k then v else dict_get_default d k' dflt)"
  by (simp add: dict_get_default_def map_of_dict_set)

lemma dict_get_set [simp]:
  "dict_get (dict_set d k v) k' = (if k' = k then v else dict_get d k')"
  by (simp add: dict_get_def)

lemma dict_set_not_empty [simp]: "dict_set d k v \<noteq> []"
  by (cases d) (auto split: if_splits)

lemma has_video_alt:
  "has_video fmt \<longleftrightarrow>
     truthy (dict_get fmt (u ''vcodec'')) \<and> dict_get fmt (u ''vcodec'') \<noteq> PStr (u ''none'')"
  by (auto simp: has_video_def dict_get_def dict_get_default_def Let_def split: option.splits)

lemma has_audio_alt:
  "has_audio fmt \<longleftrightarrow>
     truthy (dict_get fmt (u ''acodec'')) \<and> dict_get fmt (u ''acodec'') \<noteq> PStr (u ''none'')"
  by (auto simp: has_audio_def dict_get_def dict_get_default_def Let_def split: option.splits)

lemma has_audio_merged: "has_audio b \<Longrightarrow> has_audio (merged_format v b)"
  by (auto simp: has_audio_def merged_format_def Let_def dict_get_default_def map_of_dict_set
      split: option.splits)

lemma has_video_penalized [simp]: "has_video (penalized_audio rt a) = has_video a"
  by (simp add: has_video_def penalized_audio_def)

lemma has_audio_penalized [simp]: "has_audio (penalized_audio rt a) = has_audio a"
  by (simp add: has_audio_def penalized_audio_def)

lemma set_stable_sort_desc [simp]: "set (stable_sort_desc key xs) = set xs"
  by (simp add: stable_sort_desc_def)

lemma py_sort_desc_set: "py_sort_desc key xs = Inr ys \<Longrightarrow> set ys = set xs"
  by (auto simp: py_sort_desc_def split: if_splits)

text \<open>The last loop.\<close>

lemma dedupe_step_cases:
  "dedupe_step rt fmt (seen, vf, ba) =
     (if has_video fmt then
        (if (has_audio fmt \<or> truthy (dict_get fmt (u ''audio_ext'')))
            \<and> u ''video_'' @ py_str rt (height_of fmt) \<notin> set seen
         then (seen @ [u ''video_'' @ py_str rt (height_of fmt)], vf @ [fmt], ba)
         else (seen, vf, ba))
      else (if has_audio fmt \<and> ba = None then (seen, vf, Some fmt) else (seen, vf, ba)))"
  by (simp add: dedupe_step_def has_video_alt has_audio_alt height_of_def Let_def)

lemma dedupe_fold_inv:
  assumes "fold (dedupe_step rt) xs (seen, vf, ba) = (seen', vf', ba')"
    and "seen = map (\<lambda>f. u ''video_'' @ py_str rt (height_of f)) vf"
    and "distinct seen"
  shows "seen' = map (\<lambda>f. u ''video_'' @ py_str rt (height_of f)) vf' \<and> distinct seen'
    \<and> (\<forall>f\<in>set vf'. f \<in> set vf \<or>
          (f \<in> set xs \<and> has_video f \<and> (has_audio f \<or> truthy (dict_get f (u ''audio_ext'')))))
    \<and> (\<forall>b. ba' = Some b \<longrightarrow> ba = Some b \<or> (b \<in> set xs \<and> \<not> has_video b \<and> has_audio b))"
  using assms
proof (induction xs arbitrary: seen vf ba)
  case Nil
  then show ?case by auto
next
  case (Cons x xs)
  obtain s1 v1 b1 where st: "dedupe_step rt x (seen, vf, ba) = (s1, v1, b1)"
    by (cases "dedupe_step rt x (seen, vf, ba)") auto
  have f: "fold (dedupe_step rt) xs (s1, v1, b1) = (seen', vf', ba')"
    using Cons.prems(1) st by simp
  have s1: "s1 = map (\<lambda>f. u ''video_'' @ py_str rt (height_of f)) v1" "distinct s1"
    using st Cons.prems(2,3) by (auto simp: dedupe_step_cases split: if_splits)
  have v1: "\<forall>f\<in>set v1. f \<in> set vf \<or>
      (f = x \<and> has_video f \<and> (has_audio f \<or> truthy (dict_get f (u ''audio_ext''))))"
    using st by (auto simp: dedupe_step_cases split: if_splits)
  have b1: "\<forall>b. b1 = Some b \<longrightarrow> ba = Some b \<or> (b = x \<and> \<not> has_video b \<and> has_audio b)"
    using st by (auto simp: dedupe_step_cases split: if_splits)
  from Cons.IH[OF f s1] v1 b1 show ?case
    by simp blast
qed

lemma deduplicate_props:
  "set (deduplicate rt result) \<subseteq> set result
   \<and> (\<forall>f\<in>set (deduplicate rt result).
         has_video f \<longrightarrow> has_audio f \<or> truthy (dict_get f (u ''audio_ext'')))
   \<and> distinct (map (\<lambda>f. u ''video_'' @ py_str rt (height_of f))
        (filter has_video (deduplicate rt result)))"
proof -
  obtain s v b where st: "fold (dedupe_step rt) result ([], [], None) = (s, v, b)"
    by (cases "fold (dedupe_step rt) result ([], [], None)") auto
  from dedupe_fold_inv[OF st] have
    i1: "s = map (\<lambda>f. u ''video_'' @ py_str rt (height_of f)) v" "distinct s" and
    i2: "\<forall>f\<in>set v. f \<in> set result \<and> has_video f \<and> (has_audio f \<or> truthy (dict_get f (u ''audio_ext'')))" and
    i3: "\<forall>x. b = Some x \<longrightarrow> x \<in> set result \<and> \<not> has_video x \<and> has_audio x"
    by auto
  have fv: "filter has_video v = v" using i2 by (auto simp: filter_id_conv)
  have out: "deduplicate rt result = v @ (case b of None \<Rightarrow> [] | Some x \<Rightarrow> if x \<noteq> [] then [x] else [])"
    by (simp add: deduplicate_def st split: option.splits)
  have "filter has_video (deduplicate rt result) = v"
    using i3 fv by (auto simp: out split: option.splits)
  then show ?thesis
    using i1 i2 i3 by (auto simp: out split: option.splits if_splits)
qed

lemma distinct_map_outer: "distinct (map (\<lambda>x. g (h x)) xs) \<Longrightarrow> distinct (map h xs)"
  by (induction xs) auto

text \<open>What the list handed to the last loop is made of.\<close>

lemma merge_unfold:
  "merge_video_audio_formats rt formats =
     (case (if video_only_of formats \<noteq> [] \<and> audio_only_of formats \<noteq> []
               then py_sort_desc audio_sort_key (audio_only_of formats)
               else Inr (audio_only_of formats)) of
        Inl e \<Rightarrow> Inl e
      | Inr ao \<Rightarrow>
          Inr (deduplicate rt (stable_sort_desc (get_format_quality_score rt)
            ((if (if video_only_of formats \<noteq> [] \<and> ao \<noteq> [] \<and> hd ao \<noteq> []
                  then combined_of formats @ map (\<lambda>vfmt. merged_format vfmt (hd ao)) (video_only_of formats)
                  else combined_of formats) = [] \<and> video_only_of formats \<noteq> []
              then map video_only_fallback (video_only_of formats)
              else (if video_only_of formats \<noteq> [] \<and> ao \<noteq> [] \<and> hd ao \<noteq> []
                  then combined_of formats @ map (\<lambda>vfmt. merged_format vfmt (hd ao)) (video_only_of formats)
                  else combined_of formats))
             @ map (penalized_audio rt) ao))))"
  unfolding merge_video_audio_formats_def Let_def
  by (auto split: sum.splits list.splits)

lemma audio_only_not_empty: "a \<in> set (audio_only_of formats) \<Longrightarrow> a \<noteq> []"
  by (auto simp: audio_only_of_def skipped_def dict_get_def dict_get_default_def)

lemma merge_result_members:
  assumes "merge_video_audio_formats rt formats = Inr out"
  shows "\<exists>result. out = deduplicate rt result \<and>
    (\<forall>f\<in>set result.
        f \<in> set (combined_of formats)
      \<or> (\<exists>v\<in>set (video_only_of formats). \<exists>b\<in>set (audio_only_of formats). f = merged_format v b)
      \<or> (combined_of formats = [] \<and> audio_only_of formats = []
          \<and> (\<exists>v\<in>set (video_only_of formats). f = video_only_fallback v))
      \<or> (\<exists>a\<in>set (audio_only_of formats). f = penalized_audio rt a))"
proof -
  let ?vo = "video_only_of formats" and ?ao = "audio_only_of formats" and ?co = "combined_of formats"
  let ?s = "if ?vo \<noteq> [] \<and> ?ao \<noteq> [] then py_sort_desc audio_sort_key ?ao else Inr ?ao"
  obtain ao' where s: "?s = Inr ao'"
    using assms unfolding merge_unfold by (cases ?s) simp_all
  have set_ao: "set ao' = set ?ao"
  proof (cases "?vo \<noteq> [] \<and> ?ao \<noteq> []")
    case True
    with s show ?thesis using py_sort_desc_set[of audio_sort_key ?ao ao'] by simp
  next
    case False
    with s show ?thesis by auto
  qed
  define r1 where "r1 = (if ?vo \<noteq> [] \<and> ao' \<noteq> [] \<and> hd ao' \<noteq> []
                  then ?co @ map (\<lambda>vfmt. merged_format vfmt (hd ao')) ?vo
                  else ?co)"
  define r2 where "r2 = (if r1 = [] \<and> ?vo \<noteq> [] then map video_only_fallback ?vo else r1)"
  define r3 where "r3 = r2 @ map (penalized_audio rt) ao'"
  have out: "out = deduplicate rt (stable_sort_desc (get_format_quality_score rt) r3)"
    using assms unfolding merge_unfold s r3_def r2_def r1_def by simp
  have hd_in: "ao' \<noteq> [] \<Longrightarrow> hd ao' \<in> set ?ao"
    using set_ao hd_in_set by blast
  have m1: "\<forall>f\<in>set r1. f \<in> set ?co \<or> (\<exists>v\<in>set ?vo. \<exists>b\<in>set ?ao. f = merged_format v b)"
    unfolding r1_def using hd_in by auto
  have e1: "?co = [] \<and> ?ao = []" if "r1 = []" "?vo \<noteq> []"
  proof -
    have "?co = []" using that(1) unfolding r1_def by (auto split: if_splits)
    moreover have "ao' = []"
    proof (rule ccontr)
      assume "ao' \<noteq> []"
      then have "hd ao' \<noteq> []" using hd_in audio_only_not_empty by blast
      with \<open>ao' \<noteq> []\<close> that show False unfolding r1_def by simp
    qed
    ultimately show ?thesis using set_ao by simp
  qed
  have m2: "\<forall>f\<in>set r2. f \<in> set ?co \<or> (\<exists>v\<in>set ?vo. \<exists>b\<in>set ?ao. f = merged_format v b)
      \<or> (?co = [] \<and> ?ao = [] \<and> (\<exists>v\<in>set ?vo. f = video_only_fallback v))"
  proof (cases "r1 = [] \<and> ?vo \<noteq> []")
    case True
    then have "r2 = map video_only_fallback ?vo" by (simp add: r2_def)
    with e1 True show ?thesis by auto
  next
    case False
    then have "r2 = r1" by (simp add: r2_def)
    with m1 show ?thesis by blast
  qed
  have m3: "\<forall>f\<in>set r3. f \<in> set ?co \<or> (\<exists>v\<in>set ?vo. \<exists>b\<in>set ?ao. f = merged_format v b)
      \<or> (?co = [] \<and> ?ao = [] \<and> (\<exists>v\<in>set ?vo. f = video_only_fallback v))
      \<or> (\<exists>a\<in>set ?ao. f = penalized_audio rt a)"
  proof
    fix f assume "f \<in> set r3"
    then consider "f \<in> set r2" | "f \<in> penalized_audio rt ` set ao'"
      by (auto simp: r3_def)
    then show "f \<in> set ?co \<or> (\<exists>v\<in>set ?vo. \<exists>b\<in>set ?ao. f = merged_format v b)
      \<or> (?co = [] \<and> ?ao = [] \<and> (\<exists>v\<in>set ?vo. f = video_only_fallback v))
      \<or> (\<exists>a\<in>set ?ao. f = penalized_audio rt a)"
    proof cases
      case 1
      with m2 show ?thesis by blast
    next
      case 2
      with set_ao show ?thesis by blast
    qed
  qed
  have "set (stable_sort_desc (get_format_quality_score rt) r3) = set r3" by simp
  with out m3 show ?thesis by blast
qed

text \<open>
  The reconciler returns a list unless the sort of the audio-only formats raises: it
  returns whenever there is no usable video-only format, at most one usable audio-only
  format, or the sort keys \<open>abr or tbr or 0\<close> are all numbers or all strings.
\<close>

lemma merge_video_audio_formats_returns:
  assumes "video_only_of formats = [] \<or> length (audio_only_of formats) \<le> 1
    \<or> list_all (\<lambda>x. is_num (audio_sort_key x)) (audio_only_of formats)
    \<or> list_all (\<lambda>x. is_str (audio_sort_key x)) (audio_only_of formats)"
  shows "\<exists>out. merge_video_audio_formats rt formats = Inr out"
proof -
  have "\<exists>ys. (if video_only_of formats \<noteq> [] \<and> audio_only_of formats \<noteq> []
               then py_sort_desc audio_sort_key (audio_only_of formats)
               else Inr (audio_only_of formats)) = Inr ys"
    using assms by (auto simp: py_sort_desc_def)
  then show ?thesis
    unfolding merge_unfold by auto
qed

text \<open>
  C1. Every entry of the returned list that has a real video codec carries audio
  information: a real audio codec, or at least an \<open>audio_ext\<close> field. An entry with a real
  video codec and no real audio codec occurs only when the input has no usable combined
  format and no usable audio-only format, that is, no video-with-audio candidate at all.
  (An entry built by pairing a video-only format with the best audio stream gets that
  stream's real audio codec, so it is covered by the first case.)
\<close>

theorem reconciled_video_has_audio:
  assumes "merge_video_audio_formats rt formats = Inr out"
    and "fmt \<in> set out" and "has_video fmt"
  shows "(has_audio fmt \<or> truthy (dict_get fmt (u ''audio_ext'')))
    \<and> (has_audio fmt \<or> (combined_of formats = [] \<and> audio_only_of formats = []))"
proof -
  obtain result where r: "out = deduplicate rt result" and
    m: "\<forall>f\<in>set result.
        f \<in> set (combined_of formats)
      \<or> (\<exists>v\<in>set (video_only_of formats). \<exists>b\<in>set (audio_only_of formats). f = merged_format v b)
      \<or> (combined_of formats = [] \<and> audio_only_of formats = []
          \<and> (\<exists>v\<in>set (video_only_of formats). f = video_only_fallback v))
      \<or> (\<exists>a\<in>set (audio_only_of formats). f = penalized_audio rt a)"
    using merge_result_members[OF assms(1)] by blast
  have a: "has_audio fmt \<or> truthy (dict_get fmt (u ''audio_ext''))"
    using deduplicate_props[of rt result] assms(2,3) r by blast
  have "fmt \<in> set result" using deduplicate_props[of rt result] assms(2) r by blast
  with m consider
      (c) "fmt \<in> set (combined_of formats)"
    | (m) v b where "v \<in> set (video_only_of formats)" "b \<in> set (audio_only_of formats)" "fmt = merged_format v b"
    | (f) "combined_of formats = []" "audio_only_of formats = []"
    | (a) a where "a \<in> set (audio_only_of formats)" "fmt = penalized_audio rt a"
    by blast
  then have "has_audio fmt \<or> (combined_of formats = [] \<and> audio_only_of formats = [])"
  proof cases
    case c
    then show ?thesis by (simp add: combined_of_def is_combined_format_def)
  next
    case m
    then have "has_audio b" by (simp add: audio_only_of_def)
    then show ?thesis using m(3) has_audio_merged by simp
  next
    case f
    then show ?thesis by simp
  next
    case a
    then have "\<not> has_video fmt" by (simp add: audio_only_of_def)
    with assms(3) show ?thesis by simp
  qed
  with a show ?thesis by simp
qed

text \<open>
  What the last loop keeps apart is the printed height: the returned video formats have
  pairwise different texts \<open>str(fmt.get("height") or 0)\<close>. Heights that print alike, such
  as \<open>1080\<close> and \<open>"1080"\<close>, share one entry.
\<close>

lemma distinct_printed_heights:
  assumes "merge_video_audio_formats rt formats = Inr out"
  shows "distinct (map (\<lambda>f. py_str rt (height_of f)) (filter has_video out))"
proof -
  obtain result where r: "out = deduplicate rt result"
    using merge_result_members[OF assms(1)] by blast
  show ?thesis
    using deduplicate_props[of rt result] r
    by (auto intro: distinct_map_outer[of "\<lambda>s. u ''video_'' @ s" "\<lambda>f. py_str rt (height_of f)"])
qed


lemmas reconciler_defs = combined_of_def video_only_of_def audio_only_of_def
   skipped_def is_combined_format_def has_video_def has_audio_def dict_get_def dict_get_default_def 
   merged_format_def video_only_fallback_def penalized_audio_def safe_int_def stable_sort_desc_def
   get_format_quality_score_def py_or_def deduplicate_def dedupe_step_def py_sort_desc_def
   audio_sort_key_def Let_def

lemma scenario1_run:
  "merge_video_audio_formats rt scenario1 = Inr [scenario1_video, scenario1_audio]"
  by (simp add: merge_video_audio_formats_def scenario1_def scenario1_video_def scenario1_audio_def
      reconciler_defs)

lemma dedupe_fold_dropped:
  assumes "\<forall>f\<in>set xs. has_video f \<and> \<not> has_audio f \<and> \<not> truthy (dict_get f (u ''audio_ext''))"
  shows "fold (dedupe_step rt) xs st = st"
  using assms
proof (induction xs arbitrary: st)
  case Nil
  then show ?case by simp
next
  case (Cons x xs)
  obtain a b c where st: "st = (a, b, c)" by (cases st) auto
  have "dedupe_step rt x st = st"
    using Cons.prems by (simp add: st dedupe_step_cases)
  with Cons show ?case by simp
qed

lemma fallback_dropped:
  assumes "combined_of formats = []" "audio_only_of formats = []"
    and "\<forall>v\<in>set (video_only_of formats). \<not> truthy (dict_get v (u ''audio_ext''))"
  shows "merge_video_audio_formats rt formats = Inr []"
proof -
  let ?r = "stable_sort_desc (get_format_quality_score rt)
              (if video_only_of formats \<noteq> [] then map video_only_fallback (video_only_of formats) else [])"
  have m: "merge_video_audio_formats rt formats = Inr (deduplicate rt ?r)"
    unfolding merge_unfold using assms(1,2) by simp
  have "\<forall>f\<in>set ?r. has_video f \<and> \<not> has_audio f \<and> \<not> truthy (dict_get f (u ''audio_ext''))"
    using assms(3)
    by (auto simp: video_only_of_def is_combined_format_def video_only_fallback_def
        has_video_def has_audio_def)
  then have "fold (dedupe_step rt) ?r ([], [], None) = ([], [], None)"
    by (rule dedupe_fold_dropped)
  then have "deduplicate rt ?r = []"
    by (simp add: deduplicate_def)
  with m show ?thesis by simp
qed

lemma video_only_1080_run: "merge_video_audio_formats rt [video_only_1080] = Inr []"
  by (simp add: merge_video_audio_formats_def video_only_1080_def reconciler_defs)

text \<open>
  C4. The claim is that an input with a usable video-only format, no combined format and no
  audio-only format gives a non-empty output holding the video-only formats marked
  \<open>_video_only\<close>. The fallback block does add them to \<open>result\<close> (comment: "include
  video-only as fallback"), but the last loop keeps a video format only if it has a real
  audio codec or an \<open>audio_ext\<close> field, and drops them again: for a single video-only format
  the output is empty.
\<close>

theorem video_only_fallback_lost:
  "video_only_of [video_only_1080] = [video_only_1080]
   \<and> combined_of [video_only_1080] = [] \<and> audio_only_of [video_only_1080] = []
   \<and> merge_video_audio_formats rt [video_only_1080] = Inr []"
  using video_only_1080_run[of rt]
  by (simp add: video_only_1080_def reconciler_defs)

text \<open>
  Two usable combined formats that differ in the container only, \<open>mp4\<close> against \<open>webm\<close>:
  the \<open>mp4\<close> one scores 400 more, comes first after the sort and is the one returned.
  The numbers of a format are finite here; on an infinite \<open>height\<close>, \<open>tbr\<close> or \<open>fps\<close> the
  source raises OverflowError while it computes the score.
\<close>

lemma same_height_example:
  assumes "\<not> skipped f" "is_combined_format f"
    and "dict_get f (u ''ext'') = PStr (u ''mp4'')"
  shows "merge_video_audio_formats rt [f, dict_set f (u ''ext'') (PStr (u ''webm''))] = Inr [f]
       \<and> merge_video_audio_formats rt [dict_set f (u ''ext'') (PStr (u ''webm'')), f] = Inr [f]"
proof -
  let ?g = "dict_set f (u ''ext'') (PStr (u ''webm''))"
  have g: "\<not> skipped ?g" "is_combined_format ?g" "has_video ?g" "has_audio ?g" "has_video f" "has_audio f"
    using assms by (auto simp: skipped_def is_combined_format_def has_video_def has_audio_def)
  have h: "height_of ?g = height_of f" by (simp add: height_of_def)
  have sc: "get_format_quality_score rt ?g < get_format_quality_score rt f"
    using assms(2,3) g(2) by (simp add: get_format_quality_score_def py_or_def Let_def)
  have s1: "stable_sort_desc (get_format_quality_score rt) [f, ?g] = [f, ?g]"
    using sc by (simp add: stable_sort_desc_def)
  have s2: "stable_sort_desc (get_format_quality_score rt) [?g, f] = [f, ?g]"
    using sc by (simp add: stable_sort_desc_def)
  have d: "deduplicate rt [f, ?g] = [f]"
    using g h by (simp add: deduplicate_def dedupe_step_cases)
  have c1: "combined_of [f, ?g] = [f, ?g]" "video_only_of [f, ?g] = []" "audio_only_of [f, ?g] = []"
    using assms g by (simp_all add: combined_of_def video_only_of_def audio_only_of_def)
  have c2: "combined_of [?g, f] = [?g, f]" "video_only_of [?g, f] = []" "audio_only_of [?g, f] = []"
    using assms g by (simp_all add: combined_of_def video_only_of_def audio_only_of_def)
  show ?thesis
    unfolding merge_unfold c1 c2 by (simp add: s1 s2 d)
qed

text \<open>
  C2. End-to-end scenario 1: the reconciler returns exactly two entries. The first is the
  1080p video with url \<open>A\<close>, flagged \<open>_needs_merge\<close>, carrying the audio stream's url \<open>B\<close>
  as \<open>_audio_url\<close> and the audio's codec, bitrate and container (\<open>acodec\<close>, \<open>abr\<close>,
  \<open>audio_ext\<close>); the second is the audio-only entry with url \<open>B\<close> and preference
  \<open>0 - 50\<close>.
\<close>

theorem scenario1_reconciled:
  "merge_video_audio_formats rt scenario1 = Inr [scenario1_video, scenario1_audio]
   \<and> length [scenario1_video, scenario1_audio] = 2
   \<and> dict_get scenario1_video (u ''height'') = PInt 1080
   \<and> dict_get scenario1_video (u ''url'') = PStr (u ''A'')
   \<and> dict_get scenario1_video (u ''_needs_merge'') = PBool True
   \<and> dict_get scenario1_video (u ''_audio_url'') = PStr (u ''B'')
   \<and> dict_get scenario1_video (u ''acodec'') = PStr (u ''aac'')
   \<and> dict_get scenario1_video (u ''abr'') = PInt 128
   \<and> dict_get scenario1_video (u ''audio_ext'') = PStr (u ''m4a'')
   \<and> has_video scenario1_video
   \<and> \<not> has_video scenario1_audio \<and> has_audio scenario1_audio
   \<and> dict_get scenario1_audio (u ''url'') = PStr (u ''B'')
   \<and> dict_get scenario1_audio (u ''preference'') = PInt (0 - 50)"
  using scenario1_run[of rt]
  by (simp add: scenario1_video_def scenario1_audio_def dict_get_def dict_get_default_def
      has_video_def has_audio_def)

theorem reconciled_video_has_audio_witness:
  "merge_video_audio_formats example_runtime scenario1 = Inr [scenario1_video, scenario1_audio]
   \<and> scenario1_video \<in> set [scenario1_video, scenario1_audio]
   \<and> has_video scenario1_video
   \<and> has_audio scenario1_video"
proof -
  have r: "merge_video_audio_formats example_runtime scenario1 = Inr [scenario1_video, scenario1_audio]"
    by (rule scenario1_run)
  have m: "scenario1_video \<in> set [scenario1_video, scenario1_audio]" by simp
  have v: "has_video scenario1_video"
    by (simp add: scenario1_video_def has_video_def dict_get_default_def)
  have "combined_of scenario1 \<noteq> [] \<or> audio_only_of scenario1 \<noteq> []"
    by (simp add: scenario1_def reconciler_defs)
  with reconciled_video_has_audio[OF r m v] r m v show ?thesis by blast
qed

lemma combined_1080_run:
  "merge_video_audio_formats rt [combined_1080_mp4, combined_1080_webm] = Inr [combined_1080_mp4]
   \<and> merge_video_audio_formats rt [combined_1080_webm, combined_1080_mp4] = Inr [combined_1080_mp4]"
proof -
  have w: "combined_1080_webm = dict_set combined_1080_mp4 (u ''ext'') (PStr (u ''webm''))"
    by (simp add: combined_1080_webm_def combined_1080_mp4_def)
  have h: "\<not> skipped combined_1080_mp4" "is_combined_format combined_1080_mp4"
    "dict_get combined_1080_mp4 (u ''ext'') = PStr (u ''mp4'')"
    by (simp_all add: combined_1080_mp4_def reconciler_defs)
  show ?thesis
    unfolding w by (rule same_height_example[OF h])
qed

lemma combined_1080_float_run:
  "merge_video_audio_formats example_runtime [combined_1080_mp4, combined_1080_float]
     = Inr [combined_1080_mp4, combined_1080_float]"
  by (simp add: merge_video_audio_formats_def combined_1080_mp4_def combined_1080_float_def
      reconciler_defs py_str_def int_repr_def py_trunc_def example_runtime_def example_repr_def)
     (simp add: u_def)

text \<open>
  C3. The claim is that the returned list has at most one video format per height, and the
  comment above the last loop says the same ("Keep only best format per resolution"). The
  loop keys a video format by the text \<open>f"video_{height}"\<close>, not by the number, while the
  score next to it reads the same height through \<open>int\<close>: \<open>1080\<close> and \<open>1080.0\<close> are one
  number, one score and two texts, and two combined formats at these heights are both
  returned. The example of the claim does hold: of the two combined formats at height
  \<open>1080\<close> that differ in the container only, the \<open>mp4\<close> one alone is returned, in
  whichever order they come.
\<close>

theorem two_videos_at_one_height:
  "merge_video_audio_formats example_runtime [combined_1080_mp4, combined_1080_float]
     = Inr [combined_1080_mp4, combined_1080_float]
   \<and> has_video combined_1080_mp4 \<and> has_video combined_1080_float
   \<and> height_of combined_1080_mp4 = PInt 1080 \<and> height_of combined_1080_float = PFloat 1080
   \<and> num_val (height_of combined_1080_mp4) = num_val (height_of combined_1080_float)
   \<and> get_format_quality_score example_runtime combined_1080_mp4
       = get_format_quality_score example_runtime combined_1080_float
   \<and> merge_video_audio_formats rt [combined_1080_mp4, combined_1080_webm]
       = Inr [combined_1080_mp4]
   \<and> merge_video_audio_formats rt [combined_1080_webm, combined_1080_mp4]
       = Inr [combined_1080_mp4]"
proof -
  have h: "has_video combined_1080_mp4" "has_video combined_1080_float"
    "height_of combined_1080_mp4 = PInt 1080" "height_of combined_1080_float = PFloat 1080"
    by (simp_all add: combined_1080_mp4_def combined_1080_float_def height_of_def reconciler_defs)
  have n: "num_val (height_of combined_1080_mp4) = num_val (height_of combined_1080_float)"
    by (simp add: h)
  have s: "get_format_quality_score example_runtime combined_1080_mp4
       = get_format_quality_score example_runtime combined_1080_float"
    by (simp add: combined_1080_mp4_def combined_1080_float_def reconciler_defs py_trunc_def)
  from combined_1080_float_run h n s combined_1080_run[of rt] show ?thesis by simp
qed

section \<open>Properties of the record transformer\<close>

lemma ebind_Inr [simp]: "ebind (Inr x) f = f x"
  by (simp add: ebind_def)

lemma ebind_Inl [simp]: "ebind (Inl e) f = Inl e"
  by (simp add: ebind_def)

lemma with_upload_date_none [simp]: "with_upload_date rt PNone result = Inr result"
  by (simp add: with_upload_date_def)

lemma with_upload_date_str:
  "with_upload_date rt (PStr s) result =
     Inr (if length s = 8 then dict_set result (u ''upload_date'') (PStr (iso_date s)) else result)"
  by (auto simp: with_upload_date_def py_len_def)

lemma transform_single_steps:
  assumes "dict_get data (u ''_type'') \<noteq> PStr (u ''playlist'')"
    and "sanitize_title rt (dict_get_default data (u ''title'') (PStr (u ''Unknown Title''))) = Inr t"
    and "with_upload_date rt (dict_get data (u ''upload_date'')) (base_record data t) = Inr r1"
    and "transformed_formats rt data t (dict_get_default data (u ''id'') (PStr [])) = Inr fs"
    and "transformed_subtitles data = Inr ss"
    and "transformed_thumbnails rt data = Inr ts"
  shows "transform_single rt data =
     Inr (dict_set (dict_set
       (if fs = [] then no_formats_note rt (dict_set r1 (u ''formats'') (PList (map PDict fs)))
        else dict_set r1 (u ''formats'') (PList (map PDict fs)))
       (u ''subtitles'') (PDict ss)) (u ''thumbnails'') (PList ts))"
  using assms(1)
  by (simp add: transform_single_def Let_def assms(2) assms(3)[unfolded base_record_def]
      assms(4,5,6))

lemma map_of_base_record_upload: "map_of (base_record data t) (u ''upload_date'') = None"
  by (simp add: base_record_def)

lemma map_of_no_formats_note:
  "k \<notin> {u ''_error'', u ''_ytdlp_version'', u ''_hint''} \<Longrightarrow>
     map_of (no_formats_note rt r) k = map_of r k"
  by (simp add: no_formats_note_def Let_def map_of_dict_set)

text \<open>
  C8, as amended. For a record that is not a playlist and whose title, formats, subtitles
  and thumbnails are transformed without an exception, with a raw \<open>upload_date\<close> that is
  absent, null or a string: the transformer returns a record, and that record has an
  \<open>upload_date\<close> field exactly when the raw string has eight characters, digits or not;
  the field is then characters 1-4, \<open>-\<close>, 5-6, \<open>-\<close>, 7-8. For a string of eight digits
  this is the date in the form \<open>YYYY-MM-DD\<close>, as the claim has it.
\<close>

theorem upload_date_field:
  assumes "dict_get data (u ''_type'') \<noteq> PStr (u ''playlist'')"
    and "sanitize_title rt (dict_get_default data (u ''title'') (PStr (u ''Unknown Title''))) = Inr t"
    and "transformed_formats rt data t (dict_get_default data (u ''id'') (PStr [])) = Inr fs"
    and "transformed_subtitles data = Inr ss"
    and "transformed_thumbnails rt data = Inr ts"
    and "dict_get data (u ''upload_date'') = PNone \<or> dict_get data (u ''upload_date'') = PStr s"
  shows "\<exists>r. transform_single rt data = Inr r
    \<and> map_of r (u ''upload_date'') =
        (if dict_get data (u ''upload_date'') = PStr s \<and> length s = 8
         then Some (PStr (iso_date s)) else None)
    \<and> (claimed_upload_date (dict_get data (u ''upload_date'')) \<noteq> None \<longrightarrow>
         map_of r (u ''upload_date'') = claimed_upload_date (dict_get data (u ''upload_date'')))"
proof -
  let ?ud = "dict_get data (u ''upload_date'')"
  let ?r1 = "if ?ud = PStr s \<and> length s = 8
             then dict_set (base_record data t) (u ''upload_date'') (PStr (iso_date s))
             else base_record data t"
  have w: "with_upload_date rt ?ud (base_record data t) = Inr ?r1"
    using assms(6) by (auto simp: with_upload_date_str)
  note st = transform_single_steps[OF assms(1,2) w assms(3,4,5)]
  have m1: "map_of ?r1 (u ''upload_date'') =
        (if ?ud = PStr s \<and> length s = 8 then Some (PStr (iso_date s)) else None)"
    by (simp add: map_of_dict_set map_of_base_record_upload)
  let ?r = "dict_set (dict_set
       (if fs = [] then no_formats_note rt (dict_set ?r1 (u ''formats'') (PList (map PDict fs)))
        else dict_set ?r1 (u ''formats'') (PList (map PDict fs)))
       (u ''subtitles'') (PDict ss)) (u ''thumbnails'') (PList ts)"
  have m: "map_of ?r (u ''upload_date'') = map_of ?r1 (u ''upload_date'')"
    by (simp add: map_of_dict_set map_of_no_formats_note)
  have c: "claimed_upload_date ?ud \<noteq> None \<longrightarrow>
         map_of ?r1 (u ''upload_date'') = claimed_upload_date ?ud"
    using assms(6) by (auto simp: claimed_upload_date_def map_of_dict_set split: if_splits)
  from st have 1: "transform_single rt data = Inr ?r" .
  have 2: "map_of ?r (u ''upload_date'') =
        (if ?ud = PStr s \<and> length s = 8 then Some (PStr (iso_date s)) else None)"
    using m m1 by (simp only:)
  have 3: "claimed_upload_date ?ud \<noteq> None \<longrightarrow>
         map_of ?r (u ''upload_date'') = claimed_upload_date ?ud"
    using c m by (simp only:)
  from 1 2 3 show ?thesis by blast
qed

lemmas transformer_defs = sanitize_title_def raw_formats_def transformed_formats_def
  transformed_subtitles_def transformed_thumbnails_def py_iter_def as_dict_def
  no_formats_note_def with_upload_date_def py_len_def iso_date_def

lemmas sanitizer_defs = sanitize_filename_def encode_ascii_ignore_def
  invalid_char_def re_space_def py_strip_def py_lstrip_def py_rstrip_def py_prefix_def

lemma merge_nothing: "merge_video_audio_formats rt [] = Inr []"
  by (simp add: merge_video_audio_formats_def combined_of_def video_only_of_def audio_only_of_def
      stable_sort_desc_def deduplicate_def)

lemma misdated_run: "transform_single example_runtime misdated_record = Inr misdated_output"
  by (simp add: transform_single_def misdated_record_def misdated_output_def transformer_defs
      dict_get_def dict_get_default_def merge_nothing Let_def example_runtime_def)
     (simp add: sanitizer_defs u_def)

text \<open>
  A raw \<open>upload_date\<close> that is a number other than zero has no \<open>len\<close>: the transformer
  raises TypeError and returns no record at all.
\<close>

lemma upload_date_number_raises:
  assumes "dict_get data (u ''_type'') \<noteq> PStr (u ''playlist'')"
    and "sanitize_title rt (dict_get_default data (u ''title'') (PStr (u ''Unknown Title''))) = Inr t"
    and "dict_get data (u ''upload_date'') = PInt i" and "i \<noteq> 0"
  shows "transform_single rt data = Inl TypeError"
  using assms(1,4)
  by (simp add: transform_single_def Let_def assms(2,3) with_upload_date_def py_len_def)

text \<open>
  C8 as stated fails: the code tests the length only. The raw value \<open>"abcdefgh"\<close> is not a
  string of eight digits, and the output has the field \<open>upload_date = "abcd-ef-gh"\<close>.
\<close>

theorem upload_date_counterexample:
  "dict_get misdated_record (u ''upload_date'') = PStr (u ''abcdefgh'')
   \<and> claimed_upload_date (PStr (u ''abcdefgh'')) = None
   \<and> transform_single example_runtime misdated_record = Inr misdated_output
   \<and> map_of misdated_output (u ''upload_date'') = Some (PStr (u ''abcd-ef-gh''))"
proof -
  have a: "dict_get misdated_record (u ''upload_date'') = PStr (u ''abcdefgh'')"
    by (simp add: misdated_record_def dict_get_def dict_get_default_def)
  have b: "claimed_upload_date (PStr (u ''abcdefgh'')) = None"
    by (simp add: claimed_upload_date_def ascii_digit_def u_def)
  have c: "map_of misdated_output (u ''upload_date'') = Some (PStr (u ''abcd-ef-gh''))"
    by (simp add: misdated_output_def)
  from a b c misdated_run show ?thesis by simp
qed


theorem upload_date_field_witness:
  "dict_get dated_record (u ''_type'') \<noteq> PStr (u ''playlist'')
   \<and> sanitize_title example_runtime (dict_get_default dated_record (u ''title'') (PStr (u ''Unknown Title'')))
       = Inr (u ''My_Video'')
   \<and> transformed_formats example_runtime dated_record (u ''My_Video'')
        (dict_get_default dated_record (u ''id'') (PStr [])) = Inr []
   \<and> transformed_subtitles dated_record = Inr []
   \<and> transformed_thumbnails example_runtime dated_record = Inr []
   \<and> dict_get dated_record (u ''upload_date'') = PStr (u ''20240131'')
   \<and> map_of (projr (transform_single example_runtime dated_record)) (u ''upload_date'')
       = Some (PStr (u ''2024-01-31''))
   \<and> claimed_upload_date (PStr (u ''20240131'')) = Some (PStr (u ''2024-01-31''))"
proof -
  have a: "dict_get dated_record (u ''_type'') \<noteq> PStr (u ''playlist'')"
    by (simp add: dated_record_def dict_get_def dict_get_default_def)
  have b: "sanitize_title example_runtime
       (dict_get_default dated_record (u ''title'') (PStr (u ''Unknown Title''))) = Inr (u ''My_Video'')"
    by (simp add: dated_record_def dict_get_default_def sanitize_title_def example_runtime_def)
       (simp add: sanitizer_defs u_def)
  have c: "transformed_formats example_runtime dated_record (u ''My_Video'')
        (dict_get_default dated_record (u ''id'') (PStr [])) = Inr []"
    by (simp add: dated_record_def transformer_defs dict_get_def dict_get_default_def merge_nothing)
  have d: "transformed_subtitles dated_record = Inr []"
    by (simp add: dated_record_def transformer_defs dict_get_def dict_get_default_def)
  have e: "transformed_thumbnails example_runtime dated_record = Inr []"
    by (simp add: dated_record_def transformer_defs dict_get_def dict_get_default_def)
  have f: "dict_get dated_record (u ''upload_date'') = PStr (u ''20240131'')"
    by (simp add: dated_record_def dict_get_def dict_get_default_def)
  have g: "iso_date (u ''20240131'') = u ''2024-01-31''"
    by (simp add: iso_date_def u_def)
  have h: "claimed_upload_date (PStr (u ''20240131'')) = Some (PStr (u ''2024-01-31''))"
    by (simp add: claimed_upload_date_def g) (simp add: u_def ascii_digit_def)
  have l: "length (u ''20240131'') = 8" by (simp add: u_def)
  from upload_date_field[OF a b c d e disjI2[OF f]]
  have "map_of (projr (transform_single example_runtime dated_record)) (u ''upload_date'')
       = Some (PStr (u ''2024-01-31''))"
    using f g l by auto
  with a b c d e f h show ?thesis by simp
qed

text \<open>
  The upload-date step raises on a true value that has no \<open>len\<close> (a number other than
  zero, \<open>true\<close>) and on a dict of eight entries, which cannot be sliced; it returns on
  every other value, and then it leaves the record as it is or sets \<open>upload_date\<close>.
\<close>

lemma with_upload_date_returns:
  "(\<exists>r. with_upload_date rt v result = Inr r) \<longleftrightarrow>
     \<not> truthy v \<or> (case v of PStr s \<Rightarrow> True | PList xs \<Rightarrow> True | PDict d \<Rightarrow> length d \<noteq> 8
                           | _ \<Rightarrow> False)"
  by (cases v) (auto simp: with_upload_date_def py_len_def)

lemma with_upload_date_result:
  assumes "with_upload_date rt v result = Inr r1"
  shows "r1 = result \<or> (\<exists>x. r1 = dict_set result (u ''upload_date'') x)"
  using assms
  by (cases v) (auto simp: with_upload_date_def py_len_def split: if_splits)

text \<open>
  A record that is not a playlist is transformed in five steps, each of which may raise;
  \<open>transform_single\<close> returns only if all five do.
\<close>

lemma transform_single_returns:
  assumes "dict_get data (u ''_type'') \<noteq> PStr (u ''playlist'')"
    and "transform_single rt data = Inr r"
  shows "\<exists>t r1 fs ss ts.
      sanitize_title rt (dict_get_default data (u ''title'') (PStr (u ''Unknown Title''))) = Inr t
    \<and> with_upload_date rt (dict_get data (u ''upload_date'')) (base_record data t) = Inr r1
    \<and> transformed_formats rt data t (dict_get_default data (u ''id'') (PStr [])) = Inr fs
    \<and> transformed_subtitles data = Inr ss
    \<and> transformed_thumbnails rt data = Inr ts"
  using assms
  by (auto simp: transform_single_def base_record_def Let_def ebind_def split: sum.splits)

lemma numeric_date_run: "transform_single example_runtime numeric_date_record = Inl TypeError"
proof -
  have a: "dict_get numeric_date_record (u ''_type'') \<noteq> PStr (u ''playlist'')"
    by (simp add: numeric_date_record_def dict_get_def dict_get_default_def)
  have b: "sanitize_title example_runtime
       (dict_get_default numeric_date_record (u ''title'') (PStr (u ''Unknown Title'')))
         = Inr (u ''My_Video'')"
    by (simp add: numeric_date_record_def dict_get_default_def sanitize_title_def example_runtime_def)
       (simp add: sanitizer_defs u_def)
  have c: "dict_get numeric_date_record (u ''upload_date'') = PInt 20240131"
    by (simp add: numeric_date_record_def dict_get_def dict_get_default_def)
  show ?thesis
    by (rule upload_date_number_raises[OF a b c]) simp
qed

lemma null_thumbnails_run:
  "transform_single example_runtime null_thumbnails_record = Inl TypeError"
  by (simp add: transform_single_def null_thumbnails_record_def transformer_defs
      dict_get_def dict_get_default_def merge_nothing Let_def example_runtime_def)

text \<open>
  C9 as stated fails: the formats coming out empty is not enough for a record to be
  returned. A record without formats whose \<open>upload_date\<close> is the number \<open>20240131\<close> makes
  \<open>len(upload_date)\<close> raise TypeError, and one whose \<open>thumbnails\<close> are \<open>null\<close> makes the
  loop over them raise TypeError: \<open>transform_single\<close> returns no record for either.
  It catches nothing itself; the function that calls it does (\<open>except Exception\<close>, line
  347) and answers with a top-level \<open>error\<close> result.
\<close>

theorem no_formats_raises_counterexample:
  "dict_get numeric_date_record (u ''_type'') \<noteq> PStr (u ''playlist'')
   \<and> sanitize_title example_runtime
        (dict_get_default numeric_date_record (u ''title'') (PStr (u ''Unknown Title'')))
       = Inr (u ''My_Video'')
   \<and> transformed_formats example_runtime numeric_date_record (u ''My_Video'')
        (dict_get_default numeric_date_record (u ''id'') (PStr [])) = Inr []
   \<and> dict_get numeric_date_record (u ''upload_date'') = PInt 20240131
   \<and> transform_single example_runtime numeric_date_record = Inl TypeError
   \<and> dict_get null_thumbnails_record (u ''_type'') \<noteq> PStr (u ''playlist'')
   \<and> sanitize_title example_runtime
        (dict_get_default null_thumbnails_record (u ''title'') (PStr (u ''Unknown Title'')))
       = Inr (u ''My_Video'')
   \<and> transformed_formats example_runtime null_thumbnails_record (u ''My_Video'')
        (dict_get_default null_thumbnails_record (u ''id'') (PStr [])) = Inr []
   \<and> dict_get null_thumbnails_record (u ''thumbnails'') = PNone
   \<and> transform_single example_runtime null_thumbnails_record = Inl TypeError"
proof -
  have a: "dict_get numeric_date_record (u ''_type'') \<noteq> PStr (u ''playlist'')"
    "dict_get null_thumbnails_record (u ''_type'') \<noteq> PStr (u ''playlist'')"
    by (simp_all add: numeric_date_record_def null_thumbnails_record_def dict_get_def
        dict_get_default_def)
  have b: "sanitize_title example_runtime
        (dict_get_default numeric_date_record (u ''title'') (PStr (u ''Unknown Title'')))
       = Inr (u ''My_Video'')"
    "sanitize_title example_runtime
        (dict_get_default null_thumbnails_record (u ''title'') (PStr (u ''Unknown Title'')))
       = Inr (u ''My_Video'')"
    by (simp_all add: numeric_date_record_def null_thumbnails_record_def dict_get_def
        dict_get_default_def sanitize_title_def example_runtime_def)
       (simp_all add: sanitizer_defs u_def)
  have c: "transformed_formats example_runtime numeric_date_record (u ''My_Video'')
        (dict_get_default numeric_date_record (u ''id'') (PStr [])) = Inr []"
    "transformed_formats example_runtime null_thumbnails_record (u ''My_Video'')
        (dict_get_default null_thumbnails_record (u ''id'') (PStr [])) = Inr []"
    by (simp_all add: numeric_date_record_def null_thumbnails_record_def transformer_defs
        dict_get_def dict_get_default_def merge_nothing)
  have d: "dict_get numeric_date_record (u ''upload_date'') = PInt 20240131"
    "dict_get null_thumbnails_record (u ''thumbnails'') = PNone"
    by (simp_all add: numeric_date_record_def null_thumbnails_record_def dict_get_def
        dict_get_default_def)
  from a b c d numeric_date_run null_thumbnails_run show ?thesis by simp
qed

text \<open>
  C9, as amended. For a record that is not a playlist, whose title, upload date, subtitles
  and thumbnails are transformed without an exception and whose formats come out as the
  empty list: \<open>transform_single\<close> returns a record with the usual fields (\<open>id\<close>, the
  sanitized \<open>title\<close>, \<open>original_title\<close>, empty \<open>formats\<close>, the subtitles and the
  thumbnails) that carries \<open>_error = "No downloadable formats found"\<close>, the hint, and the
  installed version (\<open>None\<close> when it cannot be determined); it has no top-level \<open>error\<close>
  key. The upload-date step is any run of it that returns: on a false value, a string, a
  list, or a dict that has not eight entries.
\<close>

theorem no_formats_soft_error:
  assumes "dict_get data (u ''_type'') \<noteq> PStr (u ''playlist'')"
    and "sanitize_title rt (dict_get_default data (u ''title'') (PStr (u ''Unknown Title''))) = Inr t"
    and "with_upload_date rt (dict_get data (u ''upload_date'')) (base_record data t) = Inr r1"
    and "transformed_formats rt data t (dict_get_default data (u ''id'') (PStr [])) = Inr []"
    and "transformed_subtitles data = Inr ss"
    and "transformed_thumbnails rt data = Inr ts"
  shows "\<exists>r. transform_single rt data = Inr r
    \<and> dict_get r (u ''_error'') = PStr (u ''No downloadable formats found'')
    \<and> dict_get r (u ''_hint'') = PStr (u ''Try updating yt-dlp: yt-dlp -U'')
    \<and> dict_get r (u ''_ytdlp_version'')
        = (case rt_ytdlp_version rt of None \<Rightarrow> PNone | Some v \<Rightarrow> PStr v)
    \<and> map_of r (u ''error'') = None
    \<and> dict_get r (u ''id'') = dict_get_default data (u ''id'') (PStr [])
    \<and> dict_get r (u ''title'') = PStr t
    \<and> dict_get r (u ''original_title'')
        = dict_get_default data (u ''title'') (PStr (u ''Unknown Title''))
    \<and> dict_get r (u ''formats'') = PList []
    \<and> dict_get r (u ''subtitles'') = PDict ss
    \<and> dict_get r (u ''thumbnails'') = PList ts"
proof -
  let ?r = "dict_set (dict_set
       (no_formats_note rt (dict_set r1 (u ''formats'') (PList [])))
       (u ''subtitles'') (PDict ss)) (u ''thumbnails'') (PList ts)"
  have 1: "transform_single rt data = Inr ?r"
    using transform_single_steps[OF assms(1,2,3,4,5,6)] by simp
  from with_upload_date_result[OF assms(3)]
  have r1: "r1 = base_record data t
      \<or> (\<exists>x. r1 = dict_set (base_record data t) (u ''upload_date'') x)" .
  have g: "dict_get r1 k = dict_get (base_record data t) k" if "k \<noteq> u ''upload_date''" for k
    using that r1 by auto
  have 2: "dict_get ?r (u ''_error'') = PStr (u ''No downloadable formats found'')"
    "dict_get ?r (u ''_hint'') = PStr (u ''Try updating yt-dlp: yt-dlp -U'')"
    "dict_get ?r (u ''_ytdlp_version'')
        = (case rt_ytdlp_version rt of None \<Rightarrow> PNone | Some v \<Rightarrow> PStr v)"
    "dict_get ?r (u ''formats'') = PList []"
    "dict_get ?r (u ''subtitles'') = PDict ss"
    "dict_get ?r (u ''thumbnails'') = PList ts"
    by (simp_all add: no_formats_note_def Let_def)
  have 3: "dict_get ?r (u ''id'') = dict_get_default data (u ''id'') (PStr [])"
    "dict_get ?r (u ''title'') = PStr t"
    "dict_get ?r (u ''original_title'')
        = dict_get_default data (u ''title'') (PStr (u ''Unknown Title''))"
    by (simp_all add: no_formats_note_def Let_def g)
       (simp_all add: base_record_def dict_get_def dict_get_default_def)
  have "map_of r1 (u ''error'') = None"
    using r1 by (auto simp: map_of_dict_set base_record_def)
  then have 4: "map_of ?r (u ''error'') = None"
    by (simp add: map_of_dict_set map_of_no_formats_note)
  from 1 2 3 4 show ?thesis by blast
qed

theorem no_formats_soft_error_witness:
  "dict_get silent_video_record (u ''_type'') \<noteq> PStr (u ''playlist'')
   \<and> sanitize_title example_runtime
        (dict_get_default silent_video_record (u ''title'') (PStr (u ''Unknown Title'')))
       = Inr (u ''My_Video'')
   \<and> with_upload_date example_runtime (dict_get silent_video_record (u ''upload_date''))
        (base_record silent_video_record (u ''My_Video''))
       = Inr (base_record silent_video_record (u ''My_Video''))
   \<and> transformed_formats example_runtime silent_video_record (u ''My_Video'')
        (dict_get_default silent_video_record (u ''id'') (PStr [])) = Inr []
   \<and> transformed_subtitles silent_video_record = Inr []
   \<and> transformed_thumbnails example_runtime silent_video_record = Inr []
   \<and> isl (transform_single example_runtime silent_video_record) = False
   \<and> dict_get (projr (transform_single example_runtime silent_video_record)) (u ''_error'')
       = PStr (u ''No downloadable formats found'')
   \<and> dict_get (projr (transform_single example_runtime silent_video_record)) (u ''_hint'')
       = PStr (u ''Try updating yt-dlp: yt-dlp -U'')
   \<and> dict_get (projr (transform_single example_runtime silent_video_record)) (u ''_ytdlp_version'')
       = PStr (u ''2024.08.06'')
   \<and> dict_get (projr (transform_single example_runtime silent_video_record)) (u ''title'')
       = PStr (u ''My_Video'')
   \<and> dict_get (projr (transform_single example_runtime silent_video_record)) (u ''formats'')
       = PList []
   \<and> map_of (projr (transform_single example_runtime silent_video_record)) (u ''error'') = None"
proof -
  have a: "dict_get silent_video_record (u ''_type'') \<noteq> PStr (u ''playlist'')"
    by (simp add: silent_video_record_def dict_get_def dict_get_default_def)
  have b: "sanitize_title example_runtime
       (dict_get_default silent_video_record (u ''title'') (PStr (u ''Unknown Title'')))
         = Inr (u ''My_Video'')"
    by (simp add: silent_video_record_def dict_get_default_def sanitize_title_def example_runtime_def)
       (simp add: sanitizer_defs u_def)
  have c: "transformed_formats example_runtime silent_video_record (u ''My_Video'')
        (dict_get_default silent_video_record (u ''id'') (PStr [])) = Inr []"
    by (simp add: silent_video_record_def transformer_defs dict_get_def dict_get_default_def
        video_only_1080_run)
  have d: "transformed_subtitles silent_video_record = Inr []"
    by (simp add: silent_video_record_def transformer_defs dict_get_def dict_get_default_def)
  have e: "transformed_thumbnails example_runtime silent_video_record = Inr []"
    by (simp add: silent_video_record_def transformer_defs dict_get_def dict_get_default_def)
  have f: "with_upload_date example_runtime (dict_get silent_video_record (u ''upload_date''))
        (base_record silent_video_record (u ''My_Video''))
       = Inr (base_record silent_video_record (u ''My_Video''))"
    by (simp add: silent_video_record_def dict_get_def dict_get_default_def)
  have v: "rt_ytdlp_version example_runtime = Some (u ''2024.08.06'')"
    by (simp add: example_runtime_def)
  from no_formats_soft_error[OF a b f c d e]
  have "isl (transform_single example_runtime silent_video_record) = False
   \<and> dict_get (projr (transform_single example_runtime silent_video_record)) (u ''_error'')
       = PStr (u ''No downloadable formats found'')
   \<and> dict_get (projr (transform_single example_runtime silent_video_record)) (u ''_hint'')
       = PStr (u ''Try updating yt-dlp: yt-dlp -U'')
   \<and> dict_get (projr (transform_single example_runtime silent_video_record)) (u ''_ytdlp_version'')
       = PStr (u ''2024.08.06'')
   \<and> dict_get (projr (transform_single example_runtime silent_video_record)) (u ''title'')
       = PStr (u ''My_Video'')
   \<and> dict_get (projr (transform_single example_runtime silent_video_record)) (u ''formats'')
       = PList []
   \<and> map_of (projr (transform_single example_runtime silent_video_record)) (u ''error'') = None"
    by (auto simp: v)
  with a b c d e f show ?thesis by simp
qed

section \<open>Properties of the reconciler on a store\<close>

lemma preservesI:
  assumes "\<And>s x s'. n \<le> length s \<Longrightarrow> m s = Inr (x, s') \<Longrightarrow>
    length s \<le> length s' \<and> take n s' = take n s \<and> post x"
  shows "preserves n m post"
  using assms unfolding preserves_def by blast

lemma preservesD:
  assumes "preserves n m post" "n \<le> length s" "m s = Inr (x, s')"
  shows "length s \<le> length s'" "take n s' = take n s" "post x"
  using assms unfolding preserves_def by blast+

lemma preserves_sreturn: "post x \<Longrightarrow> preserves n (sreturn x) post"
  by (rule preservesI) (simp add: sreturn_def)

lemma preserves_raise: "preserves n (\<lambda>s. Inl e) post"
  by (rule preservesI) simp

lemma preserves_sbind:
  assumes "preserves n m mid" and "\<And>x. mid x \<Longrightarrow> preserves n (f x) post"
  shows "preserves n (sbind m f) post"
proof (rule preservesI)
  fix s y s'
  assume n: "n \<le> length s" and r: "sbind m f s = Inr (y, s')"
  then obtain x s1 where m: "m s = Inr (x, s1)" and f: "f x s1 = Inr (y, s')"
    by (auto simp: sbind_def split: sum.splits)
  note a = preservesD[OF assms(1) n m]
  have n1: "n \<le> length s1" using n a(1) by simp
  note b = preservesD[OF assms(2)[OF a(3)] n1 f]
  show "length s \<le> length s' \<and> take n s' = take n s \<and> post y"
    using a b by simp
qed

lemma preserves_weaken:
  assumes "preserves n m mid" and "\<And>x. mid x \<Longrightarrow> post x"
  shows "preserves n m post"
  using assms unfolding preserves_def by blast

lemma preserves_read_dict: "preserves n (read_dict a) (\<lambda>d. True)"
  by (rule preservesI) (auto simp: read_dict_def split: if_splits obj.splits)

lemma preserves_read_list: "preserves n (read_list a) (\<lambda>xs. True)"
  by (rule preservesI) (auto simp: read_list_def split: if_splits obj.splits)

lemma preserves_new_list: "preserves n new_list (\<lambda>a. n \<le> a)"
  by (rule preservesI) (auto simp: new_list_def)

lemma preserves_alloc: "preserves n (\<lambda>s. Inr (length s, s @ [ob])) (\<lambda>a. n \<le> a)"
  by (rule preservesI) auto

lemma preserves_overwrite: "n \<le> a \<Longrightarrow> preserves n (\<lambda>s. Inr ((), s[a := ob])) (\<lambda>x. True)"
  by (rule preservesI) auto

lemma preserves_dict_copy: "preserves n (dict_copy a) (\<lambda>c. n \<le> c)"
  unfolding dict_copy_def
  by (rule preserves_sbind[OF preserves_read_dict]) (rule preserves_alloc)

lemma preserves_dict_setitem: "n \<le> a \<Longrightarrow> preserves n (dict_setitem a k v) (\<lambda>x. True)"
  unfolding dict_setitem_def
  by (rule preserves_sbind[OF preserves_read_dict]) (rule preserves_overwrite)

lemma preserves_list_write: "n \<le> a \<Longrightarrow> preserves n (list_write a ys) (\<lambda>x. True)"
  unfolding list_write_def
  by (rule preserves_sbind[OF preserves_read_list]) (rule preserves_overwrite)

lemma preserves_list_append: "n \<le> a \<Longrightarrow> preserves n (list_append a x) (\<lambda>x. True)"
  unfolding list_append_def
  by (rule preserves_sbind[OF preserves_read_list]) (rule preserves_list_write)

lemma preserves_setitem_from:
  "n \<le> target \<Longrightarrow> preserves n (setitem_from target k source g) (\<lambda>x. True)"
  unfolding setitem_from_def
  by (rule preserves_sbind[OF preserves_read_dict]) (rule preserves_dict_setitem)

lemma preserves_sforeach:
  assumes "\<And>x. preserves n (f x) (\<lambda>y. True)"
  shows "preserves n (sforeach f xs) (\<lambda>y. True)"
proof (induction xs)
  case Nil
  show ?case by (simp add: preserves_sreturn)
next
  case (Cons x xs)
  show ?case
    by (simp, rule preserves_sbind[OF assms]) (rule Cons.IH)
qed

lemma preserves_smap:
  assumes "\<And>x. preserves n (f x) (\<lambda>y. True)"
  shows "preserves n (smap f xs) (\<lambda>ys. True)"
proof (induction xs)
  case Nil
  show ?case by (simp add: preserves_sreturn)
next
  case (Cons x xs)
  show ?case
    apply simp
    apply (rule preserves_sbind[OF assms])
    apply (rule preserves_sbind[OF Cons.IH])
    apply (rule preserves_sreturn)
    apply simp
    done
qed

lemma preserves_sort_in_place: "n \<le> a \<Longrightarrow> preserves n (sort_in_place key a) (\<lambda>x. True)"
  unfolding sort_in_place_def
  apply (rule preserves_sbind[OF preserves_read_list])
  apply (rule preserves_sbind[OF preserves_smap[OF preserves_read_dict]])
  apply (rule preserves_list_write)
  apply assumption
  done

lemma preserves_py_sort_in_place:
  "n \<le> a \<Longrightarrow> preserves n (py_sort_in_place key a) (\<lambda>x. True)"
  unfolding py_sort_in_place_def
  apply (rule preserves_sbind[OF preserves_read_list])
  apply (rule preserves_sbind[OF preserves_smap[OF preserves_read_dict]])
  apply (simp add: preserves_raise preserves_list_write split: sum.split)
  done

lemma preserves_partition_formats:
  assumes "n \<le> combined" "n \<le> video_only" "n \<le> audio_only"
  shows "preserves n (partition_formats combined video_only audio_only formats) (\<lambda>x. True)"
  unfolding partition_formats_def
  apply (rule preserves_sforeach)
  apply (rule preserves_sbind[OF preserves_read_dict])
  apply (simp add: preserves_sreturn preserves_list_append assms)
  done

lemma preserves_merge_one:
  assumes "n \<le> result"
  shows "preserves n
    (sbind (dict_copy vfmt) (\<lambda>merged.
       sbind (setitem_from merged k1 b g1) (\<lambda>_.
       sbind (setitem_from merged k2 b g2) (\<lambda>_.
       sbind (setitem_from merged k3 b g3) (\<lambda>_.
       sbind (setitem_from merged k4 b g4) (\<lambda>_.
       sbind (dict_setitem merged k5 v5) (\<lambda>_.
         list_append result merged))))))) (\<lambda>x. True)"
  apply (rule preserves_sbind[OF preserves_dict_copy])
  apply (rule preserves_sbind[OF preserves_setitem_from], assumption)
  apply (rule preserves_sbind[OF preserves_setitem_from], assumption)
  apply (rule preserves_sbind[OF preserves_setitem_from], assumption)
  apply (rule preserves_sbind[OF preserves_setitem_from], assumption)
  apply (rule preserves_sbind[OF preserves_dict_setitem], assumption)
  apply (rule preserves_list_append[OF assms])
  done

lemma preserves_pair_streams:
  assumes "n \<le> audio_only" "n \<le> result"
  shows "preserves n (pair_streams video_only audio_only result) (\<lambda>x. True)"
  unfolding pair_streams_def
  apply (rule preserves_sbind[OF preserves_read_list])
  apply (rule preserves_sbind[OF preserves_read_list])
  apply (simp add: preserves_sreturn)
  apply (rule impI)
  apply (rule preserves_sbind[OF preserves_py_sort_in_place[OF assms(1)]])
  apply (rule preserves_sbind[OF preserves_read_list])
  apply (simp add: preserves_sreturn split: list.split)
  apply (intro allI impI)
  apply (rule preserves_sbind[OF preserves_read_dict])
  apply (simp add: preserves_sreturn)
  apply (rule impI)
  apply (rule preserves_sforeach)
  apply (rule preserves_merge_one[OF assms(2)])
  done

lemma preserves_fallback_video_only:
  assumes "n \<le> result"
  shows "preserves n (fallback_video_only video_only result) (\<lambda>x. True)"
  unfolding fallback_video_only_def
  apply (rule preserves_sbind[OF preserves_read_list])
  apply (rule preserves_sbind[OF preserves_read_list])
  apply (simp add: preserves_sreturn)
  apply (rule impI)
  apply (rule preserves_sforeach)
  apply (rule preserves_sbind[OF preserves_dict_copy])
  apply (rule preserves_sbind[OF preserves_dict_setitem], assumption)
  apply (rule preserves_list_append[OF assms])
  done

lemma preserves_append_audio_only:
  assumes "n \<le> result"
  shows "preserves n (append_audio_only rt audio_only result) (\<lambda>x. True)"
  unfolding append_audio_only_def
  apply (rule preserves_sbind[OF preserves_read_list])
  apply (rule preserves_sforeach)
  apply (rule preserves_sbind[OF preserves_dict_copy])
  apply (rule preserves_sbind[OF preserves_setitem_from], assumption)
  apply (rule preserves_list_append[OF assms])
  done

lemma preserves_dedupe_loop:
  assumes "n \<le> video_formats"
  shows "preserves n (dedupe_loop rt video_formats rs st) (\<lambda>x. True)"
proof (induction rs arbitrary: st)
  case Nil
  show ?case by (simp add: preserves_sreturn)
next
  case (Cons fmt rest)
  have step: "preserves n
      (sbind (list_append video_formats fmt) (\<lambda>_. dedupe_loop rt video_formats rest st'))
      (\<lambda>x. True)" for st'
    by (rule preserves_sbind[OF preserves_list_append[OF assms]]) (rule Cons.IH)
  show ?case
    apply (simp only: dedupe_loop.simps)
    apply (rule preserves_sbind[OF preserves_read_dict])
    apply (simp add: Let_def Cons.IH step)
    done
qed

lemma preserves_deduplicate_heap: "preserves n (deduplicate_heap rt result) (\<lambda>a. n \<le> a)"
  unfolding deduplicate_heap_def
  apply (rule preserves_sbind[OF preserves_new_list])
  apply (rule preserves_sbind[OF preserves_read_list])
  apply (rule preserves_sbind[OF preserves_dedupe_loop], assumption)
  apply (simp add: preserves_sreturn split: option.split)
  apply (intro allI impI)
  apply (rule preserves_sbind[OF preserves_read_dict])
  apply (simp add: preserves_sreturn)
  apply (rule impI)
  apply (rule preserves_sbind[OF preserves_list_append], assumption)
  apply (simp add: preserves_sreturn)
  done

lemma preserves_merge: "preserves n (merge_video_audio_formats_heap rt formats) (\<lambda>a. n \<le> a)"
  unfolding merge_video_audio_formats_heap_def
  apply (rule preserves_sbind[OF preserves_new_list])
  apply (rule preserves_sbind[OF preserves_new_list])
  apply (rule preserves_sbind[OF preserves_new_list])
  apply (rule preserves_sbind[OF preserves_read_list])
  apply (rule preserves_sbind[OF preserves_partition_formats], assumption+)
  apply (rule preserves_sbind[OF preserves_new_list])
  apply (rule preserves_sbind[OF preserves_read_list])
  apply (rule preserves_sbind[OF preserves_sforeach[OF preserves_list_append]], assumption)
  apply (rule preserves_sbind[OF preserves_pair_streams], assumption+)
  apply (rule preserves_sbind[OF preserves_fallback_video_only], assumption)
  apply (rule preserves_sbind[OF preserves_append_audio_only], assumption)
  apply (rule preserves_sbind[OF preserves_sort_in_place], assumption)
  apply (rule preserves_deduplicate_heap)
  done

text \<open>
  C10. The reconciler does not modify its input. Whatever the store holds when the call
  begins, the list \<open>formats\<close>, every format dict and any other object, is the same object
  with the same content when the call returns: the final store is the initial one with new
  objects appended. The list returned is one of the new objects. (Every \<open>d[k] = v\<close>,
  \<open>append\<close> and \<open>sort\<close> of the function is on a list it created or on a dict it copied.)
\<close>

theorem input_not_modified:
  assumes "merge_video_audio_formats_heap rt formats s = Inr (out, s')"
  shows "take (length s) s' = s \<and> length s \<le> out"
  using preservesD[OF preserves_merge[of "length s" rt formats] _ assms] by simp

lemmas store_defs = sreturn_def sbind_def read_dict_def read_list_def new_list_def dict_copy_def
  dict_setitem_def list_write_def list_append_def sort_in_place_def py_sort_in_place_def
  setitem_from_def partition_formats_def pair_streams_def fallback_video_only_def
  append_audio_only_def deduplicate_heap_def merge_video_audio_formats_heap_def

lemma scenario1_store_run:
  "merge_video_audio_formats_heap rt 2 scenario1_store = Inr (9, scenario1_store_after)"
  by (simp add: store_defs scenario1_store_def scenario1_store_after_def scenario1_def
      scenario1_video_def scenario1_audio_def skipped_def is_combined_format_def has_video_def
      has_audio_def dict_get_def dict_get_default_def safe_int_def stable_sort_desc_def
      get_format_quality_score_def py_or_def py_sort_desc_def audio_sort_key_def Let_def)

theorem input_not_modified_witness:
  "merge_video_audio_formats_heap example_runtime 2 scenario1_store
     = Inr (9, scenario1_store_after)
   \<and> take (length scenario1_store) scenario1_store_after = scenario1_store
   \<and> length scenario1_store \<le> 9
   \<and> dicts_of scenario1_store 2 = scenario1
   \<and> dicts_of scenario1_store_after 2 = scenario1
   \<and> dicts_of scenario1_store_after 9 = [scenario1_video, scenario1_audio]"
proof -
  have d: "dicts_of scenario1_store 2 = scenario1"
    "dicts_of scenario1_store_after 2 = scenario1"
    "dicts_of scenario1_store_after 9 = [scenario1_video, scenario1_audio]"
    by (simp_all add: dicts_of_def scenario1_store_def scenario1_store_after_def scenario1_def)
  from input_not_modified[OF scenario1_store_run[of example_runtime]] scenario1_store_run d
  show ?thesis by simp
qed

end
